theory Spec2Isabelle
  imports Main
begin

section \<open>Strings\<close>

text \<open>
  JavaScript strings are modelled as \<^typ>\<open>string\<close>. The character classes below are the
  ASCII part of the classes the source's regular expressions and string methods use:
  \<open>\s\<close> and \<open>trim()\<close> know tab, line feed, vertical tab, form feed, carriage return and
  space; the line terminators that \<open>.\<close> refuses are line feed and carriage return;
  \<open>toLowerCase()\<close> maps \<open>A\<close>--\<open>Z\<close> to \<open>a\<close>--\<open>z\<close> and changes nothing else.
\<close>

definition is_space :: "char \<Rightarrow> bool" where
  "is_space c = (c \<in> set [CHR 0x09, CHR 0x0A, CHR 0x0B, CHR 0x0C, CHR 0x0D, CHR '' ''])"

definition is_line_terminator :: "char \<Rightarrow> bool" where
  "is_line_terminator c = (c \<in> set [CHR 0x0A, CHR 0x0D])"

definition toLowerCase_char :: "char \<Rightarrow> char" where
  "toLowerCase_char c =
     (case map_of (zip ''ABCDEFGHIJKLMNOPQRSTUVWXYZ'' ''abcdefghijklmnopqrstuvwxyz'') c of
        Some d \<Rightarrow> d
      | None \<Rightarrow> c)"

definition toLowerCase :: "string \<Rightarrow> string" where
  "toLowerCase s = map toLowerCase_char s"

definition trim :: "string \<Rightarrow> string" where
  "trim s = rev (dropWhile is_space (rev (dropWhile is_space s)))"

definition startsWith :: "string \<Rightarrow> string \<Rightarrow> bool" where
  "startsWith s p = (take (length p) s = p)"

text \<open>Decimal rendering of a number inside a template literal.\<close>

definition digit_char :: "nat \<Rightarrow> char" where
  "digit_char d = ''0123456789'' ! d"

fun digits :: "nat \<Rightarrow> string" where
  "digits n = (if n < 10 then [digit_char n] else digits (n div 10) @ [digit_char (n mod 10)])"

declare digits.simps [simp del]

definition number_to_string :: "int \<Rightarrow> string" where
  "number_to_string i = (if i < 0 then CHR ''-'' # digits (nat (- i)) else digits (nat i))"

subsection \<open>Regular expressions as matchers\<close>

text \<open>
  A matcher maps the text at the current position to the list of texts that can remain
  after a match, in the order a backtracking engine tries them; the expression matches
  when the list is not empty. Literals are compared case-insensitively (flag \<open>i\<close>).
\<close>

type_synonym matcher = "string \<Rightarrow> string list"

definition lit_ci :: "string \<Rightarrow> matcher" where
  "lit_ci p s =
     (if length p \<le> length s \<and> toLowerCase (take (length p) s) = toLowerCase p
      then [drop (length p) s] else [])"

definition seq :: "matcher \<Rightarrow> matcher \<Rightarrow> matcher" where
  "seq m1 m2 s = concat (map m2 (m1 s))"

definition alt :: "matcher \<Rightarrow> matcher \<Rightarrow> matcher" where
  "alt m1 m2 s = m1 s @ m2 s"

definition opt :: "matcher \<Rightarrow> matcher" where
  "opt m s = m s @ [s]"

text \<open>One or more characters of a class: every text left after a non-empty run.\<close>

fun plus_class :: "(char \<Rightarrow> bool) \<Rightarrow> matcher" where
  "plus_class P [] = []"
| "plus_class P (c # s) = (if P c then plus_class P s @ [s] else [])"

text \<open>\<open>.+$\<close>: the rest of the input, not empty and without a line terminator.\<close>

definition dot_plus_end :: "string \<Rightarrow> bool" where
  "dot_plus_end s = (s \<noteq> [] \<and> list_all (\<lambda>c. \<not> is_line_terminator c) s)"

text \<open>\<^verbatim>\<open>/^(https?:\/\/)?(www\.)?(youtube\.com|youtu\.be)\/.+$/i\<close>\<close>

definition isYouTubeUrl :: "string \<Rightarrow> bool" where
  "isYouTubeUrl s =
     list_ex dot_plus_end
       (seq (opt (seq (lit_ci ''http'') (seq (opt (lit_ci ''s'')) (lit_ci ''://''))))
         (seq (opt (lit_ci ''www.''))
           (seq (alt (lit_ci ''youtube.com'') (lit_ci ''youtu.be''))
             (lit_ci ''/''))) s)"

text \<open>\<^verbatim>\<open>/^(https?:\/\/[^\s]+\.[^\s]+)/i\<close>\<close>

definition isUrl :: "string \<Rightarrow> bool" where
  "isUrl s =
     (seq (lit_ci ''http'') (seq (opt (lit_ci ''s'')) (seq (lit_ci ''://'')
       (seq (plus_class (\<lambda>c. \<not> is_space c)) (seq (lit_ci ''.'')
         (plus_class (\<lambda>c. \<not> is_space c)))))) s \<noteq> [])"

section \<open>Data model\<close>

type_synonym source = string

record CachedTopicState =
  cached_content :: string
  cached_generationTime :: "int option"
  cached_sources :: "source list option"
  cached_language :: "string option"

record FileData =
  base64 :: string
  mimeType :: string

text \<open>
  One tab. \<open>null\<close> is \<open>None\<close>. The field \<open>content\<close> is typed \<open>string\<close> in the source, but the
  page handlers store \<open>ebookPages[newPage]\<close> in it, which is \<open>undefined\<close> for an index out
  of range: \<open>None\<close> stands for that value. \<open>generationTime\<close> is in milliseconds.
\<close>

record Tab =
  tab_id :: string
  title :: string
  historyStack :: "string list"
  futureStack :: "string list"
  currentTopic :: string
  content :: "string option"
  isLoading :: bool
  error :: "string option"
  generationTime :: "int option"
  groundingSources :: "source list"
  isWebSearchMode :: bool
  isEbookMode :: bool
  documentName :: "string option"
  documentContext :: "string option"
  fileData :: "FileData option"
  ebookPages :: "string list"
  currentPage :: int
  webUrl :: "string option"
  webSectionIndex :: int
  generatedDiagrams :: "string \<rightharpoonup> string"
  language :: string

definition createNewTab :: "string \<Rightarrow> Tab" where
  "createNewTab i =
     \<lparr> tab_id = i, title = ''New Tab'', historyStack = [], futureStack = [],
       currentTopic = [], content = Some [], isLoading = False, error = None,
       generationTime = None, groundingSources = [], isWebSearchMode = False,
       isEbookMode = False, documentName = None, documentContext = None, fileData = None,
       ebookPages = [], currentPage = 0, webUrl = None, webSectionIndex = 0,
       generatedDiagrams = Map.empty, language = ''English'' \<rparr>"

text \<open>Truthiness of a \<open>string | null\<close> value: neither \<open>null\<close> nor the empty string.\<close>

definition truthy :: "string option \<Rightarrow> bool" where
  "truthy v = (case v of None \<Rightarrow> False | Some s \<Rightarrow> s \<noteq> [])"

text \<open>\<open>pages[i]\<close>: \<open>undefined\<close> (here \<open>None\<close>) outside the array.\<close>

definition page_at :: "string list \<Rightarrow> int \<Rightarrow> string option" where
  "page_at pages i = (if 0 \<le> i \<and> i < int (length pages) then Some (pages ! nat i) else None)"

section \<open>Topic routing and the cache key\<close>

text \<open>The operation of the generation service that a fetch invokes, with its arguments.\<close>

datatype service_call =
    StreamImageAnalysis string string string string
  | StreamYouTubeSummary string string
  | StreamWebResource string int string
  | StreamInDocumentQuery string "string option" "FileData option" string
  | PerformAiSearch string string
  | StreamWikiDefinition string string

text \<open>\<open>activeTab.fileData && activeTab.fileData.mimeType.startsWith('image/')\<close>\<close>

definition image_file :: "FileData option \<Rightarrow> FileData option" where
  "image_file fd =
     (case fd of
        None \<Rightarrow> None
      | Some f \<Rightarrow> if startsWith (mimeType f) ''image/'' then Some f else None)"

text \<open>The branch order of \<open>fetchData\<close>.\<close>

definition select_call :: "Tab \<Rightarrow> service_call" where
  "select_call a =
     (let topic = currentTopic a; trimmedTopic = trim topic; lang = language a in
      case image_file (fileData a) of
        Some f \<Rightarrow> StreamImageAnalysis topic (base64 f) (mimeType f) lang
      | None \<Rightarrow>
      if isYouTubeUrl trimmedTopic then StreamYouTubeSummary trimmedTopic lang
      else if isUrl trimmedTopic \<and> \<not> truthy (documentContext a) \<and> fileData a = None then
        StreamWebResource trimmedTopic (webSectionIndex a) lang
      else if isWebSearchMode a then
        (if truthy (documentContext a) \<or> fileData a \<noteq> None then
           StreamInDocumentQuery topic (documentContext a) (fileData a) lang
         else PerformAiSearch topic lang)
      else
        (if truthy (documentContext a) \<or> fileData a \<noteq> None then
           StreamInDocumentQuery topic (documentContext a) (fileData a) lang
         else StreamWikiDefinition topic lang))"

definition cacheKey :: "Tab \<Rightarrow> string" where
  "cacheKey a =
     (if isWebSearchMode a then ''web:'' else ''wiki:'') @
     (case documentName a of
        None \<Rightarrow> []
      | Some n \<Rightarrow> if n = [] then [] else ''doc('' @ n @ ''):'') @
     toLowerCase (currentTopic a) @ '':'' @ number_to_string (webSectionIndex a) @ '':'' @
     language a"

section \<open>Application state\<close>

text \<open>
  The state of the \<open>App\<close> component: the \<open>useState\<close> cells and the \<open>useRef\<close> cells. The refs
  are shared by every generation, whichever tab started it.
\<close>

record App =
  tabs :: "Tab list"
  activeTabId :: string
  cache :: "string \<rightharpoonup> CachedTopicState"
  searchHistory :: "string list"
  finalContentRef :: string
  finalSourcesRef :: "source list"
  pendingDiagramsRef :: "string set"

definition initial_App :: App where
  "initial_App =
     \<lparr> tabs = [createNewTab ''default-tab''], activeTabId = ''default-tab'',
       cache = Map.empty, searchHistory = [], finalContentRef = [], finalSourcesRef = [],
       pendingDiagramsRef = {} \<rparr>"

text \<open>
  \<open>prev.map(tab => tab.id === activeTabId ? { ...tab, ...updates } : tab)\<close>: the updates are
  written as a function that overrides fields. The same shape is used by the \<open>setTabs\<close>
  calls of \<open>fetchData\<close>.
\<close>

definition updateActiveTab :: "string \<Rightarrow> (Tab \<Rightarrow> Tab) \<Rightarrow> Tab list \<Rightarrow> Tab list" where
  "updateActiveTab i updates ts = map (\<lambda>tab. if tab_id tab = i then updates tab else tab) ts"

text \<open>\<open>tabs.find(t => t.id === activeTabId) || tabs[0]\<close>; \<open>None\<close> when there is no tab at all.\<close>

definition activeTab :: "App \<Rightarrow> Tab option" where
  "activeTab s =
     (case find (\<lambda>t. tab_id t = activeTabId s) (tabs s) of
        Some t \<Rightarrow> Some t
      | None \<Rightarrow> (case tabs s of [] \<Rightarrow> None | t # _ \<Rightarrow> Some t))"

text \<open>
  A handler computes its updates from the rendered \<open>activeTab\<close> and hands them to
  \<open>updateActiveTab\<close>. Each handler below takes that snapshot first and the tab the updates
  are applied to second; \<open>on_activeTab\<close> lifts it to the application state.
\<close>

definition on_activeTab :: "(Tab \<Rightarrow> Tab \<Rightarrow> Tab) \<Rightarrow> App \<Rightarrow> App" where
  "on_activeTab h s =
     (case activeTab s of
        None \<Rightarrow> s
      | Some a \<Rightarrow> s\<lparr>tabs := updateActiveTab (activeTabId s) (h a) (tabs s)\<rparr>)"

section \<open>Tab operations\<close>

text \<open>The identifier that \<open>generateId()\<close> draws is an argument.\<close>

definition handleTabSwitch :: "string \<Rightarrow> App \<Rightarrow> App" where
  "handleTabSwitch i s = s\<lparr>activeTabId := i\<rparr>"

definition handleNewTab :: "string \<Rightarrow> App \<Rightarrow> App" where
  "handleNewTab fresh s = s\<lparr>tabs := tabs s @ [createNewTab fresh], activeTabId := fresh\<rparr>"

definition handleCloseTab :: "string \<Rightarrow> string \<Rightarrow> App \<Rightarrow> App" where
  "handleCloseTab i fresh s =
     (let newTabs = filter (\<lambda>t. tab_id t \<noteq> i) (tabs s) in
      if length newTabs = 0 then s\<lparr>tabs := [createNewTab fresh], activeTabId := fresh\<rparr>
      else if i = activeTabId s then
        s\<lparr>tabs := newTabs, activeTabId := tab_id (last newTabs)\<rparr>
      else s\<lparr>tabs := newTabs\<rparr>)"

datatype tab_operation = NewTab string | SwitchTab string | CloseTab string string

fun tab_step :: "App \<Rightarrow> tab_operation \<Rightarrow> App" where
  "tab_step s (NewTab fresh) = handleNewTab fresh s"
| "tab_step s (SwitchTab i) = handleTabSwitch i s"
| "tab_step s (CloseTab i fresh) = handleCloseTab i fresh s"

section \<open>Topic, language and history handlers\<close>

definition handleTopicChange :: "string \<Rightarrow> Tab \<Rightarrow> Tab \<Rightarrow> Tab" where
  "handleTopicChange newTopic a t =
     (if newTopic = [] then t
      else t\<lparr> historyStack :=
                (if currentTopic a \<noteq> [] then historyStack a @ [currentTopic a]
                 else historyStack a),
              futureStack := [],
              currentTopic := newTopic,
              content := Some [],
              isLoading := True,
              error := None,
              title := newTopic,
              webUrl := (if isUrl (trim newTopic) then Some (trim newTopic) else None),
              webSectionIndex := 0,
              generatedDiagrams := Map.empty \<rparr>)"

definition handleTopicChange_App :: "string \<Rightarrow> App \<Rightarrow> App" where
  "handleTopicChange_App newTopic s =
     (if newTopic = [] then s
      else (on_activeTab (handleTopicChange newTopic) s)
             \<lparr>searchHistory :=
                take 5 (newTopic #
                  filter (\<lambda>item. toLowerCase item \<noteq> toLowerCase newTopic) (searchHistory s))\<rparr>)"

definition handleSearch :: "string \<Rightarrow> Tab \<Rightarrow> Tab \<Rightarrow> Tab" where
  "handleSearch query a t = handleTopicChange (trim query) a t"

definition handleLanguageChange :: "string \<Rightarrow> Tab \<Rightarrow> Tab \<Rightarrow> Tab" where
  "handleLanguageChange lang a t =
     t\<lparr> language := lang,
        isLoading := True,
        content :=
          (if isEbookMode a \<and> \<not> isWebSearchMode a \<and> fileData a = None then content a
           else Some []) \<rparr>"

definition onWebSearchModeChange :: "bool \<Rightarrow> Tab \<Rightarrow> Tab \<Rightarrow> Tab" where
  "onWebSearchModeChange isWeb a t =
     t\<lparr> isWebSearchMode := isWeb, isLoading := True, content := Some [],
        generatedDiagrams := Map.empty \<rparr>"

definition handleBack :: "Tab \<Rightarrow> Tab \<Rightarrow> Tab" where
  "handleBack a t =
     (if length (historyStack a) = 0 then t
      else
        let prevTopic = last (historyStack a);
            newHistory = butlast (historyStack a)
        in t\<lparr> historyStack := newHistory,
                futureStack := currentTopic a # futureStack a,
                currentTopic := prevTopic,
                isLoading := True,
                error := None,
                title := prevTopic,
                webSectionIndex := 0 \<rparr>)"

definition handleForward :: "Tab \<Rightarrow> Tab \<Rightarrow> Tab" where
  "handleForward a t =
     (if length (futureStack a) = 0 then t
      else
        let nextTopic = hd (futureStack a);
            newFuture = tl (futureStack a)
        in t\<lparr> historyStack := historyStack a @ [currentTopic a],
                futureStack := newFuture,
                currentTopic := nextTopic,
                isLoading := True,
                error := None,
                title := nextTopic,
                webSectionIndex := 0 \<rparr>)"

text \<open>
  \<open>back()\<close> and \<open>forward()\<close> on one session: the handler, run on the committed state of the
  tab it updates.
\<close>

definition goBack :: "Tab \<Rightarrow> Tab" where
  "goBack t = handleBack t t"

definition goForward :: "Tab \<Rightarrow> Tab" where
  "goForward t = handleForward t t"

text \<open>The three fields that make up the position in the history.\<close>

definition nav :: "Tab \<Rightarrow> string list \<times> string \<times> string list" where
  "nav t = (historyStack t, currentTopic t, futureStack t)"

section \<open>Documents and pagination\<close>

text \<open>
  The two updates that \<open>handleFileUpload\<close> ends with. Text extraction is outside the model:
  the extracted text and pages, or the encoded file, are arguments. The first is taken
  when no text was extracted, the second otherwise.
\<close>

definition upload_binary :: "string \<Rightarrow> string \<Rightarrow> string \<Rightarrow> Tab \<Rightarrow> Tab \<Rightarrow> Tab" where
  "upload_binary name b64 mime a t =
     t\<lparr> fileData := Some \<lparr>base64 = b64,
                            mimeType = (if mime = [] then ''application/octet-stream'' else mime)\<rparr>,
        documentContext := None,
        ebookPages := [],
        documentName := Some name,
        isEbookMode := True,
        isWebSearchMode := False,
        content := Some [],
        currentTopic := ''Analyze Document'',
        title := name,
        historyStack := [],
        isLoading := True \<rparr>"

definition upload_text :: "string \<Rightarrow> string \<Rightarrow> string list \<Rightarrow> Tab \<Rightarrow> Tab \<Rightarrow> Tab" where
  "upload_text name txt pages a t =
     t\<lparr> documentContext := Some txt,
        ebookPages := pages,
        fileData := None,
        content := Some (case pages of [] \<Rightarrow> [] | p # _ \<Rightarrow> p),
        documentName := Some name,
        isEbookMode := True,
        isWebSearchMode := False,
        currentPage := 0,
        currentTopic := name,
        title := name,
        historyStack := [],
        isLoading := False \<rparr>"

definition handleClearDocument :: "Tab \<Rightarrow> Tab \<Rightarrow> Tab" where
  "handleClearDocument a t =
     t\<lparr> documentContext := None, documentName := None, fileData := None,
        isEbookMode := False, ebookPages := [], currentPage := 0,
        isWebSearchMode := False, currentTopic := ''Hypertext'', title := ''Hypertext'',
        historyStack := [], language := ''English'' \<rparr>"

definition handlePrevPage :: "Tab \<Rightarrow> Tab \<Rightarrow> Tab" where
  "handlePrevPage a t =
     (let newPage = max (currentPage a - 1) 0;
          isTranslationNeeded = (language a \<noteq> ''English'')
      in t\<lparr> currentPage := newPage,
              isLoading := isTranslationNeeded,
              content := (if isTranslationNeeded then Some []
                          else page_at (ebookPages a) newPage) \<rparr>)"

definition handleNextPage :: "Tab \<Rightarrow> Tab \<Rightarrow> Tab" where
  "handleNextPage a t =
     (let newPage = min (currentPage a + 1) (int (length (ebookPages a)) - 1);
          isTranslationNeeded = (language a \<noteq> ''English'')
      in t\<lparr> currentPage := newPage,
              isLoading := isTranslationNeeded,
              content := (if isTranslationNeeded then Some []
                          else page_at (ebookPages a) newPage) \<rparr>)"

definition handlePrevWebSection :: "Tab \<Rightarrow> Tab \<Rightarrow> Tab" where
  "handlePrevWebSection a t =
     t\<lparr> webSectionIndex := max (webSectionIndex a - 1) 0, isLoading := True,
        generatedDiagrams := Map.empty \<rparr>"

definition handleNextWebSection :: "Tab \<Rightarrow> Tab \<Rightarrow> Tab" where
  "handleNextWebSection a t =
     t\<lparr> webSectionIndex := webSectionIndex a + 1, isLoading := True,
        generatedDiagrams := Map.empty \<rparr>"

section \<open>Effects\<close>

text \<open>The effect that gives the default tab its first topic.\<close>

definition initial_effect :: "Tab \<Rightarrow> Tab \<Rightarrow> Tab" where
  "initial_effect a t =
     (if currentTopic a = [] \<and> tab_id a = ''default-tab'' \<and> \<not> isLoading a \<and>
         \<not> truthy (content a)
      then t\<lparr>currentTopic := ''Hypertext'', isLoading := True, title := ''Hypertext''\<rparr>
      else t)"

subsection \<open>Generations\<close>

text \<open>
  A stream event as the service yields it, and what the consumer of a service call
  observes next: a yielded event, the normal end of the stream, an exception, or the
  value of the one-shot search.
\<close>

datatype StreamEvent = Chunk string "source list option" | ErrorEvent string

datatype signal =
    Yields StreamEvent
  | Completes
  | Throws string
  | Resolves string "source list"

text \<open>
  One asynchronous run started by the data-fetching effect, with what its closures
  captured (\<open>activeTabId\<close>, \<open>activeTab\<close>, the start time) and its local variables. The cleanup
  function of the effect sets \<open>isCancelled\<close>.
\<close>

datatype run_body = FetchData service_call | FetchTranslation string string

record run =
  run_tabId :: string
  run_activeTab :: Tab
  run_body :: run_body
  startTime :: int
  isCancelled :: bool
  accumulatedContent :: string
  finished :: bool

definition start_run :: "string \<Rightarrow> Tab \<Rightarrow> run_body \<Rightarrow> int \<Rightarrow> run" where
  "start_run i a body now =
     \<lparr> run_tabId = i, run_activeTab = a, run_body = body, startTime = now,
       isCancelled = False, accumulatedContent = [], finished = False \<rparr>"

definition cleanup :: "run \<Rightarrow> run" where
  "cleanup r = r\<lparr>isCancelled := True\<rparr>"

subsection \<open>The data-fetching effect\<close>

text \<open>
  One run of the effect body on the rendered state, at clock reading \<open>now\<close>. It returns
  the state after the synchronous updates and the run it started, if any: a started run
  is a call to the generation service.
\<close>

definition main_effect :: "int \<Rightarrow> App \<Rightarrow> App \<times> run option" where
  "main_effect now s =
     (case activeTab s of
        None \<Rightarrow> (s, None)
      | Some a \<Rightarrow>
          if currentTopic a = [] then (s, None)
          else if isEbookMode a \<and> \<not> isWebSearchMode a \<and> fileData a = None \<and>
                  truthy (documentContext a) then
            (let pageContent =
                   (case page_at (ebookPages a) (currentPage a) of Some p \<Rightarrow> p | None \<Rightarrow> [])
             in if language a \<noteq> ''English'' then
                  (if isLoading a then
                     (s, Some (start_run (activeTabId s) a
                                 (FetchTranslation pageContent (language a)) now))
                   else (s, None))
                else if content a \<noteq> Some pageContent then
                  (s\<lparr>tabs := updateActiveTab (activeTabId s)
                      (\<lambda>t. t\<lparr>content := Some pageContent, isLoading := False, error := None,
                              groundingSources := []\<rparr>) (tabs s)\<rparr>, None)
                else (s, None))
          else
            (case (if \<not> isLoading a \<and> content a = Some [] then cache s (cacheKey a)
                   else None) of
               Some cachedState \<Rightarrow>
                 (s\<lparr>tabs := updateActiveTab (activeTabId s)
                     (\<lambda>t. t\<lparr>content := Some (cached_content cachedState),
                             generationTime := cached_generationTime cachedState,
                             groundingSources :=
                               (case cached_sources cachedState of Some x \<Rightarrow> x | None \<Rightarrow> []),
                             error := None,
                             isLoading := False,
                             title := currentTopic a\<rparr>) (tabs s)\<rparr>, None)
             | None \<Rightarrow>
                 if \<not> isLoading a then (s, None)
                 else
                   (s\<lparr>finalContentRef := [], finalSourcesRef := []\<rparr>,
                    Some (start_run (activeTabId s) a (FetchData (select_call a)) now))))"

subsection \<open>\<open>fetchData\<close>\<close>

text \<open>
  The body of the \<open>for await\<close> loops on a chunk. The loops over the video summary, the web
  resource and the definition also take the sources of the event; the loops over the
  image analysis and the document query take the text only.
\<close>

fun on_chunk :: "service_call \<Rightarrow> string \<Rightarrow> source list option \<Rightarrow> run \<Rightarrow> App \<Rightarrow> run \<times> App" where
  "on_chunk (PerformAiSearch q l) text srcs r s = (r, s)"
| "on_chunk (StreamImageAnalysis q b m l) text srcs r s =
     (let acc = accumulatedContent r @ text in
      (r\<lparr>accumulatedContent := acc\<rparr>,
       s\<lparr>finalContentRef := acc,
         tabs := updateActiveTab (run_tabId r) (\<lambda>t. t\<lparr>content := Some acc\<rparr>) (tabs s)\<rparr>))"
| "on_chunk (StreamInDocumentQuery q d f l) text srcs r s =
     (let acc = accumulatedContent r @ text in
      (r\<lparr>accumulatedContent := acc\<rparr>,
       s\<lparr>finalContentRef := acc,
         tabs := updateActiveTab (run_tabId r) (\<lambda>t. t\<lparr>content := Some acc\<rparr>) (tabs s)\<rparr>))"
| "on_chunk call text srcs r s =
     (let acc = (if text \<noteq> [] then accumulatedContent r @ text else accumulatedContent r);
          sources = (case srcs of Some x \<Rightarrow> x | None \<Rightarrow> finalSourcesRef s)
      in (r\<lparr>accumulatedContent := acc\<rparr>,
          s\<lparr>finalSourcesRef := sources,
            finalContentRef := acc,
            tabs := updateActiveTab (run_tabId r)
                      (\<lambda>t. t\<lparr>content := Some acc, groundingSources := sources\<rparr>) (tabs s)\<rparr>))"

definition catch_block :: "string \<Rightarrow> run \<Rightarrow> App \<Rightarrow> App" where
  "catch_block errorMessage r s =
     (if \<not> isCancelled r then
        s\<lparr>tabs := updateActiveTab (run_tabId r)
                    (\<lambda>t. t\<lparr>error := Some errorMessage, isLoading := False\<rparr>) (tabs s)\<rparr>
      else s)"

definition finally_block :: "int \<Rightarrow> run \<Rightarrow> App \<Rightarrow> App" where
  "finally_block now r s =
     (if \<not> isCancelled r then
        (let genTime = now - startTime r; a = run_activeTab r in
         s\<lparr>cache := (cache s)(cacheKey a \<mapsto>
                      \<lparr> cached_content = finalContentRef s,
                        cached_generationTime = Some genTime,
                        cached_sources = Some (finalSourcesRef s),
                        cached_language = Some (language a) \<rparr>),
           tabs := updateActiveTab (run_tabId r)
                     (\<lambda>t. t\<lparr>isLoading := False,
                             generationTime := Some genTime,
                             title := (case documentName a of
                                         None \<Rightarrow> currentTopic a
                                       | Some n \<Rightarrow> if n = [] then currentTopic a else n)\<rparr>)
                     (tabs s)\<rparr>)
      else s)"

text \<open>
  One signal delivered to a run of \<open>fetchData\<close>. A cancelled loop breaks at the next event;
  an error event is not a chunk and is passed over; the \<open>finally\<close> block runs on every way
  out of the \<open>try\<close>.
\<close>

definition fetchData_step :: "int \<Rightarrow> signal \<Rightarrow> service_call \<Rightarrow> run \<Rightarrow> App \<Rightarrow> run \<times> App" where
  "fetchData_step now sig call r s =
     (case call of
        PerformAiSearch q l \<Rightarrow>
          (case sig of
             Resolves c sources \<Rightarrow>
               if isCancelled r then (r\<lparr>finished := True\<rparr>, finally_block now r s)
               else
                 (r\<lparr>finished := True\<rparr>,
                  finally_block now r
                    (s\<lparr>finalContentRef := c,
                      finalSourcesRef := sources,
                      tabs := updateActiveTab (run_tabId r)
                                (\<lambda>t. t\<lparr>content := Some c, groundingSources := sources\<rparr>)
                                (tabs s)\<rparr>))
           | Throws msg \<Rightarrow> (r\<lparr>finished := True\<rparr>, finally_block now r (catch_block msg r s))
           | Yields ev \<Rightarrow> (r, s)
           | Completes \<Rightarrow> (r, s))
      | _ \<Rightarrow>
          (case sig of
             Yields ev \<Rightarrow>
               if isCancelled r then (r\<lparr>finished := True\<rparr>, finally_block now r s)
               else (case ev of
                       Chunk text srcs \<Rightarrow> on_chunk call text srcs r s
                     | ErrorEvent m \<Rightarrow> (r, s))
           | Completes \<Rightarrow> (r\<lparr>finished := True\<rparr>, finally_block now r s)
           | Throws msg \<Rightarrow> (r\<lparr>finished := True\<rparr>, finally_block now r (catch_block msg r s))
           | Resolves c sources \<Rightarrow> (r, s)))"

subsection \<open>\<open>fetchTranslation\<close>\<close>

text \<open>
  One signal delivered to a page translation. The update after the loop is reached on
  the normal end of the stream and on the \<open>break\<close> of a cancelled loop alike.
\<close>

definition fetchTranslation_step :: "signal \<Rightarrow> run \<Rightarrow> App \<Rightarrow> run \<times> App" where
  "fetchTranslation_step sig r s =
     (case sig of
        Yields ev \<Rightarrow>
          if isCancelled r then
            (r\<lparr>finished := True\<rparr>,
             s\<lparr>tabs := updateActiveTab (run_tabId r) (\<lambda>t. t\<lparr>isLoading := False\<rparr>) (tabs s)\<rparr>)
          else (case ev of
                  Chunk text srcs \<Rightarrow>
                    (let acc = accumulatedContent r @ text in
                     (r\<lparr>accumulatedContent := acc\<rparr>,
                      s\<lparr>tabs := updateActiveTab (run_tabId r)
                                  (\<lambda>t. t\<lparr>content := Some acc\<rparr>) (tabs s)\<rparr>))
                | ErrorEvent m \<Rightarrow> (r, s))
      | Completes \<Rightarrow>
          (r\<lparr>finished := True\<rparr>,
           s\<lparr>tabs := updateActiveTab (run_tabId r) (\<lambda>t. t\<lparr>isLoading := False\<rparr>) (tabs s)\<rparr>)
      | Throws msg \<Rightarrow>
          (r\<lparr>finished := True\<rparr>,
           if \<not> isCancelled r then
             s\<lparr>tabs := updateActiveTab (run_tabId r)
                         (\<lambda>t. t\<lparr>error := Some ''Translation failed'', isLoading := False\<rparr>)
                         (tabs s)\<rparr>
           else s)
      | Resolves c sources \<Rightarrow> (r, s))"

definition run_step :: "int \<Rightarrow> signal \<Rightarrow> run \<Rightarrow> App \<Rightarrow> run \<times> App" where
  "run_step now sig r s =
     (if finished r then (r, s)
      else (case run_body r of
              FetchData call \<Rightarrow> fetchData_step now sig call r s
            | FetchTranslation pageContent lang \<Rightarrow> fetchTranslation_step sig r s))"

text \<open>A run fed a list of signals, each with the clock reading at its delivery.\<close>

fun run_steps :: "(int \<times> signal) list \<Rightarrow> run \<Rightarrow> App \<Rightarrow> run \<times> App" where
  "run_steps [] r s = (r, s)"
| "run_steps ((now, sig) # rest) r s = (case run_step now sig r s of (r', s') \<Rightarrow> run_steps rest r' s')"

text \<open>
  Two runs side by side: a schedule delivers signals to either and runs the cleanup of
  either, in any order.
\<close>

datatype party = RunA | RunB

datatype action = Deliver party int signal | Cancel party

fun schedule_step :: "run \<times> run \<times> App \<Rightarrow> action \<Rightarrow> run \<times> run \<times> App" where
  "schedule_step (rA, rB, s) (Deliver RunA now sig) =
     (case run_step now sig rA s of (rA', s') \<Rightarrow> (rA', rB, s'))"
| "schedule_step (rA, rB, s) (Deliver RunB now sig) =
     (case run_step now sig rB s of (rB', s') \<Rightarrow> (rA, rB', s'))"
| "schedule_step (rA, rB, s) (Cancel RunA) = (cleanup rA, rB, s)"
| "schedule_step (rA, rB, s) (Cancel RunB) = (rA, cleanup rB, s)"

definition of_party :: "party \<Rightarrow> action \<Rightarrow> bool" where
  "of_party p act = (case act of Deliver q now sig \<Rightarrow> q = p | Cancel q \<Rightarrow> q = p)"

subsection \<open>The diagram effect\<close>

text \<open>
  \<^verbatim>\<open>/\[DIAGRAM:\s*(.*?)\]/g\<close> at one position: the literal, the longest run of white space,
  then the shortest text without a line terminator up to a closing bracket. Giving white
  space back cannot turn a failure into a match, since the same text up to the first
  bracket would then have to be crossed by \<open>.\<close>. The result is the captured prompt and the
  text after the match.
\<close>

definition strip_lit :: "string \<Rightarrow> string \<Rightarrow> string option" where
  "strip_lit p s = (if take (length p) s = p then Some (drop (length p) s) else None)"

definition match_diagram :: "string \<Rightarrow> (string \<times> string) option" where
  "match_diagram s =
     (case strip_lit ''[DIAGRAM:'' s of
        None \<Rightarrow> None
      | Some r \<Rightarrow>
          (let body = dropWhile is_space r;
               prompt = takeWhile (\<lambda>c. c \<noteq> CHR '']'' \<and> \<not> is_line_terminator c) body
           in case drop (length prompt) body of
                [] \<Rightarrow> None
              | c # rest \<Rightarrow> if c = CHR '']'' then Some (prompt, rest) else None))"

lemma match_diagram_shorter:
  assumes "match_diagram s = Some (p, rest)"
  shows "length rest < length s"
proof -
  from assms obtain r where r: "strip_lit ''[DIAGRAM:'' s = Some r"
    by (auto simp: match_diagram_def split: option.splits)
  then have lr: "length r \<le> length s"
    by (auto simp: strip_lit_def split: if_splits)
  define body where "body = dropWhile is_space r"
  have lb: "length body \<le> length r"
    unfolding body_def by (rule length_dropWhile_le)
  from assms r obtain c where "drop (length p) body = c # rest"
    by (auto simp: match_diagram_def body_def Let_def split: list.splits if_splits)
  then have "length (drop (length p) body) = Suc (length rest)"
    by simp
  then have "length rest < length body"
    by simp
  with lb lr show ?thesis by simp
qed

text \<open>The \<open>while ((match = regex.exec(content)) !== null)\<close> loop: the prompts in order.\<close>

function diagram_prompts :: "string \<Rightarrow> string list" where
  "diagram_prompts [] = []"
| "diagram_prompts (c # s) =
     (case match_diagram (c # s) of
        Some (p, rest) \<Rightarrow> p # diagram_prompts rest
      | None \<Rightarrow> diagram_prompts s)"
  by pat_completeness auto
termination
  by (relation "measure length") (auto dest: match_diagram_shorter)

declare diagram_prompts.simps [simp del]

text \<open>
  The body of the loop over the prompts: the diagrams of the rendered tab, the pending
  set as it grows, and the prompts for which \<open>generateInfoDiagram\<close> is called.
\<close>

fun request_diagrams ::
  "(string \<rightharpoonup> string) \<Rightarrow> string list \<Rightarrow> string set \<Rightarrow> string set \<times> string list" where
  "request_diagrams g [] pending = (pending, [])"
| "request_diagrams g (p # ps) pending =
     (if \<not> truthy (g p) \<and> p \<notin> pending then
        (case request_diagrams g ps (insert p pending) of
           (pending', requested) \<Rightarrow> (pending', p # requested))
      else request_diagrams g ps pending)"

text \<open>
  The effect returns the state with the new pending set and the calls it issued, each
  with the identifier of the tab that will receive the image.
\<close>

definition diagram_effect :: "App \<Rightarrow> App \<times> (string \<times> string) list" where
  "diagram_effect s =
     (case activeTab s of
        None \<Rightarrow> (s, [])
      | Some a \<Rightarrow>
          (case content a of
             None \<Rightarrow> (s, [])
           | Some c \<Rightarrow>
               if c = [] then (s, [])
               else
                 (case request_diagrams (generatedDiagrams a) (diagram_prompts c)
                         (pendingDiagramsRef s) of
                    (pending', requested) \<Rightarrow>
                      (s\<lparr>pendingDiagramsRef := pending'\<rparr>,
                       map (\<lambda>p. (tab_id a, p)) requested))))"

text \<open>A diagram call settles: with an image (\<open>Some\<close>) or with a failure (\<open>None\<close>).\<close>

definition diagram_settled :: "string \<Rightarrow> string \<Rightarrow> string option \<Rightarrow> App \<Rightarrow> App" where
  "diagram_settled i prompt result s =
     (let s' = (case result of
                  Some b64 \<Rightarrow>
                    s\<lparr>tabs := map (\<lambda>t. if tab_id t = i
                                        then t\<lparr>generatedDiagrams := (generatedDiagrams t)(prompt \<mapsto> b64)\<rparr>
                                        else t) (tabs s)\<rparr>
                | None \<Rightarrow> s)
      in s'\<lparr>pendingDiagramsRef := pendingDiagramsRef s' - {prompt}\<rparr>)"

subsection \<open>An effect together with its run\<close>

text \<open>
  The data-fetching effect at clock reading \<open>now\<close>, and the run it starts (if it starts
  one) fed the given signals with nothing else happening in between.
\<close>

definition effect_then :: "(int \<times> signal) list \<Rightarrow> int \<Rightarrow> App \<Rightarrow> App" where
  "effect_then sigs now s =
     (case main_effect now s of
        (s', None) \<Rightarrow> s'
      | (s', Some r) \<Rightarrow> snd (run_steps sigs r s'))"

subsection \<open>Notions for the isolation of sessions\<close>

text \<open>
  The tabs of a list with those of one identifier blanked out, and the contents of the
  tabs of one identifier.
\<close>

definition others :: "string \<Rightarrow> Tab list \<Rightarrow> Tab option list" where
  "others i ts = map (\<lambda>t. if tab_id t = i then None else Some t) ts"

definition contents :: "string \<Rightarrow> Tab list \<Rightarrow> string option list" where
  "contents i ts = map content (filter (\<lambda>t. tab_id t = i) ts)"

section \<open>Example sessions\<close>

text \<open>
  Concrete sessions, each reached from the initial state by the handlers and effects
  above. Where a tab or a run is written out below, a lemma further down shows that the
  handlers and effects produce it.
\<close>

subsection \<open>Single tabs\<close>

text \<open>The default tab after the initial effect.\<close>

definition hypertext_tab :: Tab where
  "hypertext_tab = initial_effect (createNewTab ''default-tab'') (createNewTab ''default-tab'')"

text \<open>A video link typed into the search bar of the default tab.\<close>

definition youtube_tab :: Tab where
  "youtube_tab = handleSearch ''https://youtu.be/abc123'' hypertext_tab hypertext_tab"

text \<open>
  An image is uploaded, web search is switched on, and the same video link is typed into
  the search bar.
\<close>

definition image_tab :: Tab where
  "image_tab =
     (let t0 = createNewTab ''default-tab'';
          t1 = upload_binary ''cat.png'' ''iVBORw0KGgo='' ''image/png'' t0 t0;
          t2 = onWebSearchModeChange True t1 t1
      in handleSearch ''https://youtu.be/abc123'' t2 t2)"

text \<open>A web book opened from the default tab and read up to its third section.\<close>

definition reader_tab :: Tab where
  "reader_tab =
     (let t1 = handleTopicChange ''https://example.org/book'' hypertext_tab hypertext_tab;
          t2 = handleNextWebSection t1 t1
      in handleNextWebSection t2 t2)"

text \<open>A scanned document without extractable text, uploaded into a new tab.\<close>

definition scanned_tab :: Tab where
  "scanned_tab =
     upload_binary ''scan.pdf'' ''JVBERi0xLjQ='' ''application/pdf''
       (createNewTab ''default-tab'') (createNewTab ''default-tab'')"

subsection \<open>The first definition\<close>

text \<open>
  The application after the initial effect, the run that the data-fetching effect then
  starts, and the application after the definition of \<open>Hypertext\<close> has been streamed to the
  end in one chunk.
\<close>

definition App_loaded :: App where
  "App_loaded = on_activeTab initial_effect initial_App"

definition hypertext_run :: run where
  "hypertext_run =
     start_run ''default-tab'' hypertext_tab
       (FetchData (StreamWikiDefinition ''Hypertext'' ''English'')) 0"

definition App_hypertext :: App where
  "App_hypertext =
     effect_then
       [(100, Yields (Chunk ''Hypertext is text with links.'' None)), (1200, Completes)]
       0 App_loaded"

text \<open>The run and the application between the chunk and the end of the stream.\<close>

definition hypertext_streaming :: run where
  "hypertext_streaming =
     hypertext_run\<lparr>accumulatedContent := ''Hypertext is text with links.''\<rparr>"

definition App_streaming :: App where
  "App_streaming =
     snd (run_step 100 (Yields (Chunk ''Hypertext is text with links.'' None))
            hypertext_run App_loaded)"

text \<open>The default tab when the stream has ended.\<close>

definition hypertext_done :: Tab where
  "hypertext_done =
     hypertext_tab\<lparr>title := ''Hypertext'', content := Some ''Hypertext is text with links.'',
       isLoading := False, generationTime := Some 1200, groundingSources := []\<rparr>"

text \<open>The same topic is then requested once more.\<close>

definition App_again :: App where
  "App_again = handleTopicChange_App ''Hypertext'' App_hypertext"

definition hypertext_again :: Tab where
  "hypertext_again = handleTopicChange ''Hypertext'' hypertext_done hypertext_done"

text \<open>
  Instead, the first stream fails after one chunk: the service yields an error event and
  throws.
\<close>

definition App_failed :: App where
  "App_failed =
     effect_then
       [(100, Yields (Chunk ''Hyper'' None)),
        (150, Yields (ErrorEvent ''Could not generate content for Hypertext. 503'')),
        (150, Throws ''503'')]
       0 App_loaded"

subsection \<open>A scanned file whose analysis fails\<close>

text \<open>
  After the definition of \<open>Hypertext\<close>, a scanned file is uploaded, its analysis fails at
  once, and the document is closed again. The tab after the upload, the run of the
  analysis, the tab after the failure and the tab after the document is closed:
\<close>

definition App_scanned :: App where
  "App_scanned =
     on_activeTab (upload_binary ''scan.pdf'' ''JVBERi0xLjQ='' ''application/pdf'')
       App_hypertext"

definition App_scan_failed :: App where
  "App_scan_failed = effect_then [(9000, Throws ''quota'')] 8000 App_scanned"

definition App_cleared :: App where
  "App_cleared = on_activeTab handleClearDocument App_scan_failed"

definition scanned_done :: Tab where
  "scanned_done =
     upload_binary ''scan.pdf'' ''JVBERi0xLjQ='' ''application/pdf'' hypertext_done
       hypertext_done"

definition scan_run :: run where
  "scan_run =
     start_run ''default-tab'' scanned_done
       (FetchData (StreamInDocumentQuery ''Analyze Document'' None
          (Some \<lparr>base64 = ''JVBERi0xLjQ='', mimeType = ''application/pdf''\<rparr>) ''English''))
       8000"

definition scan_failed :: Tab where
  "scan_failed =
     scanned_done\<lparr>title := ''scan.pdf'', isLoading := False, error := Some ''quota'',
       generationTime := Some 1000\<rparr>"

definition cleared :: Tab where
  "cleared = handleClearDocument scan_failed scan_failed"

subsection \<open>A book read in Spanish\<close>

text \<open>
  A two-page book is uploaded after the first definition, the language is set to Spanish,
  the first page is translated, the reader turns to the second page, which is translated
  too, and turns back. First the tab at each of these moments, then the application.
\<close>

definition book_tab :: Tab where
  "book_tab =
     upload_text ''book.pdf'' (''one'' @ [CHR 0x0A, CHR 0x0A] @ ''two'') [''one'', ''two'']
       hypertext_done hypertext_done"

definition spanish_tab :: Tab where
  "spanish_tab = handleLanguageChange ''Spanish'' book_tab book_tab"

definition page0_tab :: Tab where
  "page0_tab = spanish_tab\<lparr>content := Some ''uno'', isLoading := False\<rparr>"

definition turning_tab :: Tab where
  "turning_tab = handleNextPage page0_tab page0_tab"

definition page1_tab :: Tab where
  "page1_tab = turning_tab\<lparr>content := Some ''dos'', isLoading := False\<rparr>"

definition revisit_tab :: Tab where
  "revisit_tab = handlePrevPage page1_tab page1_tab"

definition App_book :: App where
  "App_book =
     on_activeTab
       (upload_text ''book.pdf'' (''one'' @ [CHR 0x0A, CHR 0x0A] @ ''two'') [''one'', ''two''])
       App_hypertext"

definition App_spanish :: App where
  "App_spanish = on_activeTab (handleLanguageChange ''Spanish'') App_book"

definition App_page0 :: App where
  "App_page0 =
     effect_then [(20100, Yields (Chunk ''uno'' None)), (20200, Completes)] 20000 App_spanish"

definition App_turning :: App where
  "App_turning = on_activeTab handleNextPage App_page0"

definition App_page1 :: App where
  "App_page1 =
     effect_then [(30100, Yields (Chunk ''dos'' None)), (30200, Completes)] 30000 App_turning"

definition App_revisit :: App where
  "App_revisit = on_activeTab handlePrevPage App_page1"

subsection \<open>Two tabs with the same diagram marker\<close>

text \<open>
  The first definition ends with a diagram marker, and the diagram effect has issued the
  call for it. While that call is outstanding, a second tab is opened on another topic
  whose definition carries the same marker.
\<close>

definition App_linked :: App where
  "App_linked =
     effect_then
       [(100, Yields (Chunk ''Hypertext is text with links. [DIAGRAM: linked pages]'' None)),
        (1200, Completes)]
       0 App_loaded"

definition linked_tab :: Tab where
  "linked_tab =
     hypertext_tab\<lparr>title := ''Hypertext'',
       content := Some ''Hypertext is text with links. [DIAGRAM: linked pages]'',
       isLoading := False, generationTime := Some 1200, groundingSources := []\<rparr>"

definition App_pending :: App where
  "App_pending = fst (diagram_effect App_linked)"

definition App_new :: App where
  "App_new = handleTopicChange_App ''Hyperlink'' (handleNewTab ''tab-b'' App_pending)"

definition hyperlink_tab :: Tab where
  "hyperlink_tab =
     handleTopicChange ''Hyperlink'' (createNewTab ''tab-b'') (createNewTab ''tab-b'')"

definition App_second :: App where
  "App_second =
     effect_then
       [(5100, Yields (Chunk ''A hyperlink joins pages. [DIAGRAM: linked pages]'' None)),
        (5900, Completes)]
       5000 App_new"

definition hyperlink_done :: Tab where
  "hyperlink_done =
     hyperlink_tab\<lparr>title := ''Hyperlink'',
       content := Some ''A hyperlink joins pages. [DIAGRAM: linked pages]'',
       isLoading := False, generationTime := Some 900, groundingSources := []\<rparr>"

text \<open>One definition that carries the same marker twice.\<close>

definition App_twice :: App where
  "App_twice =
     effect_then
       [(100, Yields (Chunk ''[DIAGRAM: linked pages] Hypertext. [DIAGRAM: linked pages]''
                 None)),
        (1200, Completes)]
       0 App_loaded"

definition twice_tab :: Tab where
  "twice_tab =
     hypertext_tab\<lparr>title := ''Hypertext'',
       content := Some ''[DIAGRAM: linked pages] Hypertext. [DIAGRAM: linked pages]'',
       isLoading := False, generationTime := Some 1200, groundingSources := []\<rparr>"

subsection \<open>A translation cancelled by a second tab\<close>

text \<open>
  The first page of the book is being translated and one chunk has arrived when a second
  tab is opened, which runs the cleanup of the translation, and a topic is requested
  there.
\<close>

definition translation_run :: run where
  "translation_run =
     start_run ''default-tab'' spanish_tab (FetchTranslation ''one'' ''Spanish'') 20000"

definition App_partial :: App where
  "App_partial = snd (run_step 20100 (Yields (Chunk ''u'' None)) translation_run App_spanish)"

definition translation_cancelled :: run where
  "translation_cancelled = cleanup (translation_run\<lparr>accumulatedContent := ''u''\<rparr>)"

definition App_requested :: App where
  "App_requested = handleTopicChange_App ''Unity'' (handleNewTab ''tab-b'' App_partial)"

definition unity_tab :: Tab where
  "unity_tab = handleTopicChange ''Unity'' (createNewTab ''tab-b'') (createNewTab ''tab-b'')"

definition unity_run :: run where
  "unity_run =
     start_run ''tab-b'' unity_tab (FetchData (StreamWikiDefinition ''Unity'' ''English''))
       21000"

definition App_unity :: App where
  "App_unity = fst (main_effect 21000 App_requested)"

section \<open>Evaluation of the string functions\<close>

lemmas regex_defs =
  isYouTubeUrl_def isUrl_def seq_def opt_def alt_def lit_ci_def toLowerCase_def
  toLowerCase_char_def dot_plus_end_def is_line_terminator_def is_space_def

lemma number_to_string_0: "number_to_string 0 = ''0''"
  by (simp add: number_to_string_def digits.simps digit_char_def)

lemmas key_defs = cacheKey_def toLowerCase_def toLowerCase_char_def number_to_string_0

lemma trim_Hypertext: "trim ''Hypertext'' = ''Hypertext''"
  by (simp add: trim_def is_space_def)

lemma trim_video_link: "trim ''https://youtu.be/abc123'' = ''https://youtu.be/abc123''"
  by (simp add: trim_def is_space_def)

lemma Hypertext_is_no_link: "\<not> isYouTubeUrl ''Hypertext''" "\<not> isUrl ''Hypertext''"
  by (simp_all add: regex_defs)

lemma video_link_matches: "isYouTubeUrl ''https://youtu.be/abc123''"
  by (simp add: regex_defs)

lemma hypertext_tab_simps:
  "currentTopic hypertext_tab = ''Hypertext''" "language hypertext_tab = ''English''"
  "documentName hypertext_tab = None" "documentContext hypertext_tab = None"
  "fileData hypertext_tab = None" "\<not> isWebSearchMode hypertext_tab"
  "webSectionIndex hypertext_tab = 0" "historyStack hypertext_tab = []"
  "futureStack hypertext_tab = []" "isLoading hypertext_tab"
  "content hypertext_tab = Some []" "tab_id hypertext_tab = ''default-tab''"
  "\<not> isEbookMode hypertext_tab"
  by (simp_all add: hypertext_tab_def initial_effect_def createNewTab_def truthy_def)

section \<open>The cache key and the router\<close>

text \<open>
  Claim C6, as the code has it. For the topic \<open>Hypertext\<close> in English, with no document
  loaded, web search off and the first section, \<open>fetchData\<close> calls the definition stream
  and the cache key is \<open>wiki:hypertext:0:English\<close>: the mode prefix \<open>wiki:\<close> is followed
  directly by the lower-cased topic, with one colon between them.
\<close>

theorem hypertext_fingerprint:
  assumes "currentTopic a = ''Hypertext''" and "language a = ''English''"
    and "documentName a = None" and "documentContext a = None" and "fileData a = None"
    and "\<not> isWebSearchMode a" and "webSectionIndex a = 0"
  shows "select_call a = StreamWikiDefinition ''Hypertext'' ''English'' \<and>
         cacheKey a = ''wiki:hypertext:0:English''"
proof -
  have "select_call a = StreamWikiDefinition ''Hypertext'' ''English''"
    using assms
    by (simp add: select_call_def image_file_def truthy_def trim_Hypertext Hypertext_is_no_link)
  moreover have "cacheKey a = ''wiki:hypertext:0:English''"
    using assms by (simp add: key_defs)
  ultimately show ?thesis by simp
qed

theorem hypertext_fingerprint_witness:
  "select_call hypertext_tab = StreamWikiDefinition ''Hypertext'' ''English'' \<and>
   cacheKey hypertext_tab = ''wiki:hypertext:0:English''"
  using hypertext_fingerprint [of hypertext_tab] by (simp add: hypertext_tab_simps)

text \<open>The key of the default session is not the string with two colons.\<close>

theorem hypertext_fingerprint_counterexample:
  "currentTopic hypertext_tab = ''Hypertext'' \<and> language hypertext_tab = ''English'' \<and>
   documentName hypertext_tab = None \<and>
   cacheKey hypertext_tab \<noteq> ''wiki::hypertext:0:English''"
  by (simp add: hypertext_tab_simps key_defs)

text \<open>
  Claim C8, as the code has it. When the trimmed topic matches the video pattern and no
  image file is attached, \<open>fetchData\<close> calls the video summary, whatever the web-search
  flag is. The check for an attached image comes first in the branch order.
\<close>

theorem youtube_outranks_search:
  assumes "isYouTubeUrl (trim (currentTopic a))" and "image_file (fileData a) = None"
  shows "select_call (a\<lparr>isWebSearchMode := w\<rparr>) =
         StreamYouTubeSummary (trim (currentTopic a)) (language a)"
  using assms by (simp add: select_call_def)

lemma youtube_tab_simps:
  "currentTopic youtube_tab = ''https://youtu.be/abc123''" "fileData youtube_tab = None"
  "language youtube_tab = ''English''"
  by (simp_all add: youtube_tab_def handleSearch_def handleTopicChange_def trim_video_link
      hypertext_tab_simps)

theorem youtube_outranks_search_witness:
  "isYouTubeUrl (trim (currentTopic youtube_tab)) \<and>
   image_file (fileData youtube_tab) = None \<and>
   select_call (youtube_tab\<lparr>isWebSearchMode := True\<rparr>) =
     StreamYouTubeSummary ''https://youtu.be/abc123'' ''English''"
  using youtube_outranks_search [of youtube_tab True]
  by (simp add: youtube_tab_simps trim_video_link video_link_matches image_file_def)

lemma image_tab_simps:
  "currentTopic image_tab = ''https://youtu.be/abc123''"
  "fileData image_tab = Some \<lparr>base64 = ''iVBORw0KGgo='', mimeType = ''image/png''\<rparr>"
  "language image_tab = ''English''" "isWebSearchMode image_tab"
  by (simp_all add: image_tab_def handleSearch_def handleTopicChange_def upload_binary_def
      onWebSearchModeChange_def createNewTab_def Let_def trim_video_link)

text \<open>With an image attached, the same link with web search on is sent to the image analysis.\<close>

theorem youtube_outranks_search_counterexample:
  "isYouTubeUrl (trim (currentTopic image_tab)) \<and> isWebSearchMode image_tab \<and>
   select_call image_tab =
     StreamImageAnalysis ''https://youtu.be/abc123'' ''iVBORw0KGgo='' ''image/png'' ''English''"
  by (simp add: image_tab_simps trim_video_link video_link_matches select_call_def
      image_file_def startsWith_def)

section \<open>The session store\<close>

lemma tab_step_nonempty: "tabs s \<noteq> [] \<Longrightarrow> tabs (tab_step s op) \<noteq> []"
  by (cases op) (auto simp: handleNewTab_def handleTabSwitch_def handleCloseTab_def Let_def)

lemma foldl_tab_step_nonempty: "tabs s \<noteq> [] \<Longrightarrow> tabs (foldl tab_step s ops) \<noteq> []"
  by (induction ops arbitrary: s) (simp_all add: tab_step_nonempty)

text \<open>
  Claim C9. The store starts with the one default tab; after any sequence of new-tab,
  switch and close operations it holds at least one tab; and closing a tab when no other
  tab remains leaves exactly one fresh default tab.
\<close>

theorem session_store_never_empty:
  "tabs initial_App = [createNewTab ''default-tab''] \<and>
   tabs (foldl tab_step initial_App ops) \<noteq> [] \<and>
   (filter (\<lambda>t. tab_id t \<noteq> i) (tabs s) = [] \<longrightarrow>
      tabs (handleCloseTab i fresh s) = [createNewTab fresh])"
proof -
  have "tabs initial_App \<noteq> []" by (simp add: initial_App_def)
  then have "tabs (foldl tab_step initial_App ops) \<noteq> []" by (rule foldl_tab_step_nonempty)
  then show ?thesis by (simp add: initial_App_def handleCloseTab_def)
qed

theorem session_store_never_empty_witness:
  "filter (\<lambda>t. tab_id t \<noteq> ''default-tab'') (tabs initial_App) = [] \<and>
   tabs (handleCloseTab ''default-tab'' ''k3x9q0a1z'' initial_App) = [createNewTab ''k3x9q0a1z''] \<and>
   tabs (foldl tab_step initial_App
           [NewTab ''a'', CloseTab ''default-tab'' ''b'', CloseTab ''a'' ''c'']) \<noteq> []"
  using session_store_never_empty
    [of "[NewTab ''a'', CloseTab ''default-tab'' ''b'', CloseTab ''a'' ''c'']"
        "''default-tab''" initial_App "''k3x9q0a1z''"]
  by (simp add: initial_App_def createNewTab_def)

section \<open>Local pagination\<close>

text \<open>
  Claim C10. With an empty page list and the page index at 0, the next-page handler
  stores \<open>-1\<close> as the page index, which is outside \<open>[0, pageCount - 1]\<close>; the previous-page
  handler never stores an index below 0.
\<close>

theorem next_page_leaves_range_without_pages:
  "(ebookPages a = [] \<and> currentPage a = 0 \<longrightarrow>
      currentPage (handleNextPage a t) = - 1 \<and>
      \<not> (0 \<le> currentPage (handleNextPage a t) \<and>
         currentPage (handleNextPage a t) \<le> int (length (ebookPages a)) - 1)) \<and>
   0 \<le> currentPage (handlePrevPage a t)"
  by (simp add: handleNextPage_def handlePrevPage_def Let_def)

theorem next_page_leaves_range_without_pages_witness:
  "ebookPages scanned_tab = [] \<and> currentPage scanned_tab = 0 \<and>
   currentPage (handleNextPage scanned_tab scanned_tab) = - 1 \<and>
   0 \<le> currentPage (handlePrevPage scanned_tab scanned_tab)"
  using next_page_leaves_range_without_pages [of scanned_tab scanned_tab]
  by (simp add: scanned_tab_def upload_binary_def createNewTab_def)

section \<open>History navigation\<close>

lemma goBack_fields:
  assumes "historyStack t \<noteq> []"
  shows "historyStack (goBack t) = butlast (historyStack t)"
    and "currentTopic (goBack t) = last (historyStack t)"
    and "futureStack (goBack t) = currentTopic t # futureStack t"
    and "webSectionIndex (goBack t) = 0"
  using assms by (simp_all add: goBack_def handleBack_def Let_def)

lemma goForward_fields:
  assumes "futureStack t \<noteq> []"
  shows "historyStack (goForward t) = historyStack t @ [currentTopic t]"
    and "currentTopic (goForward t) = hd (futureStack t)"
    and "futureStack (goForward t) = tl (futureStack t)"
    and "webSectionIndex (goForward t) = 0"
  using assms by (simp_all add: goForward_def handleForward_def Let_def)

lemma goBack_noop: "historyStack t = [] \<Longrightarrow> goBack t = t"
  by (simp add: goBack_def handleBack_def)

lemma goForward_noop: "futureStack t = [] \<Longrightarrow> goForward t = t"
  by (simp add: goForward_def handleForward_def)

lemma nav_goForward_cong: "nav x = nav y \<Longrightarrow> nav (goForward x) = nav (goForward y)"
  by (cases "futureStack y = []") (simp_all add: nav_def goForward_fields goForward_noop)

lemma nav_goForward_goBack: "historyStack t \<noteq> [] \<Longrightarrow> nav (goForward (goBack t)) = nav t"
  by (simp add: nav_def goForward_fields goBack_fields)

lemma nav_round_trip:
  "n \<le> length (historyStack t) \<Longrightarrow> nav ((goForward ^^ n) ((goBack ^^ n) t)) = nav t"
proof (induction n arbitrary: t)
  case 0
  show ?case by simp
next
  case (Suc n)
  then have ne: "historyStack t \<noteq> []" by auto
  with Suc.prems have "n \<le> length (historyStack (goBack t))"
    by (simp add: goBack_fields)
  then have "nav ((goForward ^^ n) ((goBack ^^ n) (goBack t))) = nav (goBack t)"
    by (rule Suc.IH)
  then have "nav (goForward ((goForward ^^ n) ((goBack ^^ n) (goBack t)))) =
             nav (goForward (goBack t))"
    by (rule nav_goForward_cong)
  with ne show ?case
    by (simp add: funpow_swap1 nav_goForward_goBack)
qed

lemma section_after_round_trip:
  assumes "0 < n" and "n \<le> length (historyStack t)"
  shows "webSectionIndex ((goForward ^^ n) ((goBack ^^ n) t)) = 0"
proof -
  from assms obtain m where n: "n = Suc m" by (cases n) auto
  let ?x = "(goForward ^^ m) ((goBack ^^ n) t)"
  have ne: "historyStack t \<noteq> []" using assms by auto
  have "m \<le> length (historyStack (goBack t))" using assms n ne by (simp add: goBack_fields)
  then have "nav ((goForward ^^ m) ((goBack ^^ m) (goBack t))) = nav (goBack t)"
    by (rule nav_round_trip)
  then have "futureStack ?x = currentTopic t # futureStack t"
    using ne by (simp add: n funpow_swap1 nav_def goBack_fields)
  then have "webSectionIndex (goForward ?x) = 0"
    by (simp add: goForward_fields)
  then show ?thesis by (simp add: n)
qed

text \<open>
  Claim C4, as the code has it. From any session, \<open>n\<close> steps back followed by \<open>n\<close> steps
  forward, with \<open>n\<close> at most the depth of the history stack, restore the current topic and
  both stacks. Every step that is taken sets the remote section index to 0, so the index
  is 0 afterwards unless \<open>n\<close> is 0. A step back on an empty history stack and a step
  forward on an empty future stack change nothing.
\<close>

theorem history_round_trip:
  "(n \<le> length (historyStack t) \<longrightarrow>
      currentTopic ((goForward ^^ n) ((goBack ^^ n) t)) = currentTopic t \<and>
      historyStack ((goForward ^^ n) ((goBack ^^ n) t)) = historyStack t \<and>
      futureStack ((goForward ^^ n) ((goBack ^^ n) t)) = futureStack t \<and>
      webSectionIndex ((goForward ^^ n) ((goBack ^^ n) t)) =
        (if n = 0 then webSectionIndex t else 0)) \<and>
   (historyStack t = [] \<longrightarrow> goBack t = t) \<and>
   (futureStack t = [] \<longrightarrow> goForward t = t)"
proof -
  {
    assume n: "n \<le> length (historyStack t)"
    then have "nav ((goForward ^^ n) ((goBack ^^ n) t)) = nav t"
      by (rule nav_round_trip)
    moreover have "webSectionIndex ((goForward ^^ n) ((goBack ^^ n) t)) =
        (if n = 0 then webSectionIndex t else 0)"
      using n by (cases "n = 0") (simp_all add: section_after_round_trip)
    ultimately have "currentTopic ((goForward ^^ n) ((goBack ^^ n) t)) = currentTopic t \<and>
      historyStack ((goForward ^^ n) ((goBack ^^ n) t)) = historyStack t \<and>
      futureStack ((goForward ^^ n) ((goBack ^^ n) t)) = futureStack t \<and>
      webSectionIndex ((goForward ^^ n) ((goBack ^^ n) t)) =
        (if n = 0 then webSectionIndex t else 0)"
      by (simp add: nav_def)
  }
  then show ?thesis by (simp add: goBack_noop goForward_noop)
qed

lemma reader_tab_simps:
  "historyStack reader_tab = [''Hypertext'']"
  "currentTopic reader_tab = ''https://example.org/book''"
  "futureStack reader_tab = []" "webSectionIndex reader_tab = 2"
  by (simp_all add: reader_tab_def hypertext_tab_simps handleTopicChange_def
      handleNextWebSection_def Let_def)

theorem history_round_trip_witness:
  "(1::nat) \<le> length (historyStack reader_tab) \<and>
   currentTopic ((goForward ^^ 1) ((goBack ^^ 1) reader_tab)) = ''https://example.org/book'' \<and>
   historyStack ((goForward ^^ 1) ((goBack ^^ 1) reader_tab)) = [''Hypertext''] \<and>
   webSectionIndex ((goForward ^^ 1) ((goBack ^^ 1) reader_tab)) = 0 \<and>
   futureStack reader_tab = [] \<and> goForward reader_tab = reader_tab \<and>
   historyStack (createNewTab ''t'') = [] \<and> goBack (createNewTab ''t'') = createNewTab ''t''"
  using history_round_trip [of 1 reader_tab] history_round_trip [of 0 "createNewTab ''t''"]
  by (simp add: reader_tab_simps createNewTab_def)

text \<open>
  One step back and one step forward from the third section of a web book: the topic is
  restored, the section index is not.
\<close>

theorem history_round_trip_counterexample:
  "(1::nat) \<le> length (historyStack reader_tab) \<and>
   currentTopic ((goForward ^^ 1) ((goBack ^^ 1) reader_tab)) = currentTopic reader_tab \<and>
   webSectionIndex ((goForward ^^ 1) ((goBack ^^ 1) reader_tab)) \<noteq> webSectionIndex reader_tab"
  by (simp add: reader_tab_simps goBack_fields goForward_fields)

section \<open>The fetch effect and the result cache\<close>

lemmas step_defs = run_step_def start_run_def fetchData_step_def fetchTranslation_step_def
  finally_block_def catch_block_def Let_def updateActiveTab_def

lemma App_loaded_eq: "App_loaded = initial_App\<lparr>tabs := [hypertext_tab]\<rparr>"
  by (simp add: App_loaded_def on_activeTab_def activeTab_def initial_App_def updateActiveTab_def
      hypertext_tab_def createNewTab_def)

lemma key_hypertext: "cacheKey hypertext_tab = ''wiki:hypertext:0:English''"
  by (simp add: hypertext_tab_simps key_defs)

lemma call_hypertext:
  "select_call hypertext_tab = StreamWikiDefinition ''Hypertext'' ''English''"
  by (simp add: select_call_def hypertext_tab_simps image_file_def truthy_def trim_Hypertext
      Hypertext_is_no_link)

lemma effect_loaded: "main_effect 0 App_loaded = (App_loaded, Some hypertext_run)"
  by (simp add: App_loaded_eq main_effect_def activeTab_def initial_App_def hypertext_tab_simps
      call_hypertext hypertext_run_def)

lemma hypertext_run_simps:
  "run_tabId hypertext_run = ''default-tab''" "run_activeTab hypertext_run = hypertext_tab"
  "run_body hypertext_run = FetchData (StreamWikiDefinition ''Hypertext'' ''English'')"
  "startTime hypertext_run = 0" "\<not> isCancelled hypertext_run"
  "accumulatedContent hypertext_run = []" "\<not> finished hypertext_run"
  by (simp_all add: hypertext_run_def start_run_def)

lemma App_hypertext_eq:
  "App_hypertext =
     initial_App\<lparr>tabs := [hypertext_done],
       cache := [''wiki:hypertext:0:English'' \<mapsto>
          \<lparr>cached_content = ''Hypertext is text with links.'', cached_generationTime = Some 1200,
           cached_sources = Some [], cached_language = Some ''English''\<rparr>],
       finalContentRef := ''Hypertext is text with links.''\<rparr>"
  unfolding App_hypertext_def effect_then_def effect_loaded
  by (simp add: App_loaded_eq step_defs hypertext_run_simps key_hypertext initial_App_def hypertext_tab_simps hypertext_done_def)

lemma finally_block_cache:
  "\<not> isCancelled r \<Longrightarrow>
   cache (finally_block now r s) (cacheKey (run_activeTab r)) =
     Some \<lparr>cached_content = finalContentRef s, cached_generationTime = Some (now - startTime r),
           cached_sources = Some (finalSourcesRef s),
           cached_language = Some (language (run_activeTab r))\<rparr>"
  by (simp add: finally_block_def Let_def)

lemma finally_block_refs:
  "finalContentRef (finally_block now r s) = finalContentRef s"
  "finalSourcesRef (finally_block now r s) = finalSourcesRef s"
  by (simp_all add: finally_block_def Let_def)

text \<open>A run of \<open>fetchData\<close> that ends without an exception has just written its cache entry.\<close>

lemma completed_fetch_is_cached:
  assumes "run_body r = FetchData call" and "\<not> finished r" and "\<not> isCancelled r"
    and "run_step now sig r s = (r', s')" and "finished r'"
    and "\<And>msg. sig \<noteq> Throws msg"
  shows "cache s' (cacheKey (run_activeTab r)) =
     Some \<lparr>cached_content = finalContentRef s', cached_generationTime = Some (now - startTime r),
           cached_sources = Some (finalSourcesRef s'),
           cached_language = Some (language (run_activeTab r))\<rparr>"
proof (cases sig)
  case (Yields ev)
  with assms show ?thesis
    by (cases call; cases ev)
       (auto simp: run_step_def fetchData_step_def Let_def split: if_splits)
next
  case Completes
  with assms show ?thesis
    by (cases call)
       (auto simp: run_step_def fetchData_step_def finally_block_cache finally_block_refs)
next
  case (Throws msg)
  with assms(6) show ?thesis by blast
next
  case (Resolves c srcs)
  with assms show ?thesis
    by (cases call)
       (auto simp: run_step_def fetchData_step_def finally_block_cache finally_block_refs)
qed

lemma main_effect_cache_hit:
  assumes "activeTab s = Some a" and "currentTopic a \<noteq> []"
    and "\<not> (isEbookMode a \<and> \<not> isWebSearchMode a \<and> fileData a = None \<and>
            truthy (documentContext a))"
    and "\<not> isLoading a" and "content a = Some []"
    and "cache s (cacheKey a) = Some c"
  shows "main_effect now s =
    (s\<lparr>tabs := updateActiveTab (activeTabId s)
         (\<lambda>t. t\<lparr>content := Some (cached_content c),
                 generationTime := cached_generationTime c,
                 groundingSources := (case cached_sources c of Some x \<Rightarrow> x | None \<Rightarrow> []),
                 error := None, isLoading := False, title := currentTopic a\<rparr>) (tabs s)\<rparr>, None)"
  using assms by (auto simp: main_effect_def)

text \<open>
  A run of \<open>fetchData\<close> as the effect starts it: not cancelled, nothing accumulated, and the
  content reference reset.
\<close>

lemma main_effect_starts_fetch:
  assumes "main_effect t0 s0 = (sa, Some r0)" and "run_body r0 = FetchData call"
  shows "\<not> isCancelled r0" and "\<not> finished r0" and "startTime r0 = t0"
    and "finalContentRef sa = accumulatedContent r0"
    and "activeTab s0 = Some (run_activeTab r0)"
  using assms
  by (auto simp: main_effect_def start_run_def Let_def split: option.splits if_splits)

text \<open>
  While a run of \<open>fetchData\<close> that is not cancelled has not finished, the content reference
  holds what the run has accumulated.
\<close>

lemma run_step_accumulates:
  assumes "run_body r = FetchData call" and "\<not> isCancelled r"
    and "finalContentRef s = accumulatedContent r"
    and "run_step now sig r s = (r', s')" and "\<not> finished r'"
  shows "run_body r' = FetchData call \<and> \<not> isCancelled r' \<and> startTime r' = startTime r \<and>
         run_activeTab r' = run_activeTab r \<and> finalContentRef s' = accumulatedContent r'"
proof (cases "finished r")
  case True
  with assms show ?thesis by (simp add: run_step_def)
next
  case False
  with assms show ?thesis
    by (cases call; cases sig)
       (auto simp: run_step_def fetchData_step_def Let_def
          split: if_splits StreamEvent.splits)
qed

lemma run_steps_finished: "finished r \<Longrightarrow> run_steps sigs r s = (r, s)"
  by (induction sigs) (auto simp: run_step_def)

lemma run_steps_accumulate:
  assumes "run_steps sigs r s = (r', s')" and "\<not> finished r'"
    and "run_body r = FetchData call" and "\<not> isCancelled r"
    and "finalContentRef s = accumulatedContent r"
  shows "run_body r' = FetchData call \<and> \<not> isCancelled r' \<and> startTime r' = startTime r \<and>
         run_activeTab r' = run_activeTab r \<and> finalContentRef s' = accumulatedContent r'"
  using assms
proof (induction sigs arbitrary: r s)
  case Nil
  then show ?case by simp
next
  case (Cons x sigs)
  obtain now sig where x: "x = (now, sig)" by (cases x)
  obtain r1 s1 where st: "run_step now sig r s = (r1, s1)" by (cases "run_step now sig r s")
  with Cons.prems(1) x have rest: "run_steps sigs r1 s1 = (r', s')" by simp
  have "\<not> finished r1"
  proof
    assume "finished r1"
    with rest have "r' = r1" by (simp add: run_steps_finished)
    with \<open>finished r1\<close> Cons.prems(2) show False by simp
  qed
  from run_step_accumulates [OF Cons.prems(3,4,5) st this]
  have inv: "run_body r1 = FetchData call" "\<not> isCancelled r1" "startTime r1 = startTime r"
    "run_activeTab r1 = run_activeTab r" "finalContentRef s1 = accumulatedContent r1"
    by simp_all
  from Cons.IH [OF rest Cons.prems(2) inv(1,2,5)] inv(3,4)
  show ?case by simp
qed

text \<open>
  What the last step of a run that ends without an exception leaves in the content
  reference: the value of the one-shot search, or else the accumulated content.
\<close>

lemma last_step_result:
  assumes "run_body r = FetchData call" and "\<not> finished r" and "\<not> isCancelled r"
    and "finalContentRef s = accumulatedContent r"
    and "run_step now sig r s = (r', s')" and "finished r'"
    and "\<And>msg. sig \<noteq> Throws msg"
  shows "finalContentRef s' = (case sig of Resolves c srcs \<Rightarrow> c | _ \<Rightarrow> accumulatedContent r')"
proof (cases sig)
  case (Yields ev)
  with assms show ?thesis
    by (cases call; cases ev)
       (auto simp: run_step_def fetchData_step_def Let_def split: if_splits)
next
  case Completes
  with assms show ?thesis
    by (cases call)
       (auto simp: run_step_def fetchData_step_def finally_block_refs)
next
  case (Throws msg)
  with assms(7) show ?thesis by blast
next
  case (Resolves c srcs)
  with assms show ?thesis
    by (cases call)
       (auto simp: run_step_def fetchData_step_def finally_block_refs)
qed

text \<open>A session that is marked loading gets a new run, whatever the cache holds.\<close>

lemma main_effect_generates:
  assumes "activeTab s = Some a" and "currentTopic a \<noteq> []"
    and "\<not> (isEbookMode a \<and> \<not> isWebSearchMode a \<and> fileData a = None \<and>
            truthy (documentContext a))"
    and "isLoading a"
  shows "main_effect now s =
     (s\<lparr>finalContentRef := [], finalSourcesRef := []\<rparr>,
      Some (start_run (activeTabId s) a (FetchData (select_call a)) now))"
  using assms by (auto simp: main_effect_def)

text \<open>
  Claim C1, as the code has it. Let the fetch effect start a run of \<open>fetchData\<close> for the
  session \<open>a0\<close>, and let that run receive its signals and end without an exception; it is
  not cancelled. Take any later state in which the cache entry under the key of \<open>a0\<close> is
  still the one this run wrote, and in which the active session \<open>a\<close> has a topic, has the
  same cache key, is not paging through a local text document, is not marked loading and
  has the empty string as its content. Then the effect starts no call to the generation
  service, changes nothing but the active session, and sets the content of that session to
  what the run accumulated (for the one-shot search, to the content the search resolved
  to). The conditions on the loading flag and on the content are part of the cache check
  in the code: for a session with a topic that is marked loading and is not paging
  through a local text document, the effect starts a new run of \<open>fetchData\<close>, whatever the
  cache holds.
\<close>

theorem cached_result_hydrates_idle_session:
  assumes "activeTab s0 = Some a0"
    and "main_effect t0 s0 = (sa, Some r0)" and "run_body r0 = FetchData call"
    and "run_steps sigs r0 sa = (r, sb)" and "\<not> finished r"
    and "run_step t1 sig r sb = (r1, s1)" and "finished r1"
    and "\<And>msg. sig \<noteq> Throws msg"
    and "activeTab s = Some a" and "currentTopic a \<noteq> []"
    and "cacheKey a = cacheKey a0"
    and "cache s (cacheKey a0) = cache s1 (cacheKey a0)"
    and "\<not> (isEbookMode a \<and> \<not> isWebSearchMode a \<and> fileData a = None \<and>
            truthy (documentContext a))"
    and "\<not> isLoading a" and "content a = Some []"
  shows "main_effect t2 s =
           (s\<lparr>tabs := updateActiveTab (activeTabId s)
                (\<lambda>t. t\<lparr>content :=
                          Some (case sig of Resolves c srcs \<Rightarrow> c | _ \<Rightarrow> accumulatedContent r1),
                        generationTime := Some (t1 - t0),
                        groundingSources := finalSourcesRef s1,
                        error := None, isLoading := False, title := currentTopic a\<rparr>)
                (tabs s)\<rparr>,
            None) \<and>
         (\<forall>t s' b. activeTab s' = Some b \<and> currentTopic b \<noteq> [] \<and>
            \<not> (isEbookMode b \<and> \<not> isWebSearchMode b \<and> fileData b = None \<and>
               truthy (documentContext b)) \<and> isLoading b \<longrightarrow>
            snd (main_effect t s') =
              Some (start_run (activeTabId s') b (FetchData (select_call b)) t))"
proof -
  note start = main_effect_starts_fetch [OF assms(2,3)]
  from start(5) assms(1) have a0: "run_activeTab r0 = a0" by simp
  from run_steps_accumulate [OF assms(4,5,3) start(1,4)] start(3) a0
  have inv: "run_body r = FetchData call" "\<not> isCancelled r" "startTime r = t0"
    "run_activeTab r = a0" "finalContentRef sb = accumulatedContent r"
    by simp_all
  have "finalContentRef s1 = (case sig of Resolves c srcs \<Rightarrow> c | _ \<Rightarrow> accumulatedContent r1)"
    using inv(1) assms(5) inv(2,5) assms(6,7,8) by (rule last_step_result)
  moreover have "cache s1 (cacheKey a0) =
     Some \<lparr>cached_content = finalContentRef s1, cached_generationTime = Some (t1 - t0),
           cached_sources = Some (finalSourcesRef s1), cached_language = Some (language a0)\<rparr>"
    using completed_fetch_is_cached [OF inv(1) assms(5) inv(2) assms(6,7,8)] inv(3,4)
    by simp
  ultimately have "cache s (cacheKey a) =
     Some \<lparr>cached_content = (case sig of Resolves c srcs \<Rightarrow> c | _ \<Rightarrow> accumulatedContent r1),
           cached_generationTime = Some (t1 - t0),
           cached_sources = Some (finalSourcesRef s1), cached_language = Some (language a0)\<rparr>"
    using assms(11,12) by simp
  from main_effect_cache_hit [OF assms(9,10,13,14,15) this, of t2]
  have "main_effect t2 s =
           (s\<lparr>tabs := updateActiveTab (activeTabId s)
                (\<lambda>t. t\<lparr>content :=
                          Some (case sig of Resolves c srcs \<Rightarrow> c | _ \<Rightarrow> accumulatedContent r1),
                        generationTime := Some (t1 - t0),
                        groundingSources := finalSourcesRef s1,
                        error := None, isLoading := False, title := currentTopic a\<rparr>)
                (tabs s)\<rparr>,
            None)"
    by simp
  moreover have "\<forall>t s' b. activeTab s' = Some b \<and> currentTopic b \<noteq> [] \<and>
            \<not> (isEbookMode b \<and> \<not> isWebSearchMode b \<and> fileData b = None \<and>
               truthy (documentContext b)) \<and> isLoading b \<longrightarrow>
            snd (main_effect t s') =
              Some (start_run (activeTabId s') b (FetchData (select_call b)) t)"
    by (simp add: main_effect_generates)
  ultimately show ?thesis by (rule conjI)
qed

lemma App_hypertext_fields:
  "tabs App_hypertext = [hypertext_done]" "activeTabId App_hypertext = ''default-tab''"
  "cache App_hypertext = [''wiki:hypertext:0:English'' \<mapsto>
          \<lparr>cached_content = ''Hypertext is text with links.'', cached_generationTime = Some 1200,
           cached_sources = Some [], cached_language = Some ''English''\<rparr>]"
  "finalContentRef App_hypertext = ''Hypertext is text with links.''"
  "finalSourcesRef App_hypertext = []"
  by (simp_all add: App_hypertext_eq initial_App_def)

lemma hypertext_done_simps:
  "tab_id hypertext_done = ''default-tab''" "currentTopic hypertext_done = ''Hypertext''"
  "historyStack hypertext_done = []" "language hypertext_done = ''English''"
  "documentName hypertext_done = None" "documentContext hypertext_done = None"
  "fileData hypertext_done = None" "\<not> isWebSearchMode hypertext_done"
  "\<not> isEbookMode hypertext_done" "webSectionIndex hypertext_done = 0"
  "\<not> isLoading hypertext_done" "content hypertext_done = Some ''Hypertext is text with links.''"
  by (simp_all add: hypertext_done_def hypertext_tab_simps)

lemma activeTab_single: "tab_id t = activeTabId s \<Longrightarrow> tabs s = [t] \<Longrightarrow> activeTab s = Some t"
  by (simp add: activeTab_def)

lemma App_again_fields:
  "tabs App_again = [handleTopicChange ''Hypertext'' hypertext_done hypertext_done]"
  "activeTabId App_again = ''default-tab''"
  "cache App_again = cache App_hypertext"
  by (simp_all add: App_again_def handleTopicChange_App_def on_activeTab_def
      activeTab_single [of hypertext_done] App_hypertext_fields hypertext_done_simps updateActiveTab_def)

lemma hypertext_again_simps:
  "tab_id hypertext_again = ''default-tab''" "currentTopic hypertext_again = ''Hypertext''"
  "language hypertext_again = ''English''"
  "documentName hypertext_again = None" "documentContext hypertext_again = None"
  "fileData hypertext_again = None" "\<not> isWebSearchMode hypertext_again"
  "\<not> isEbookMode hypertext_again" "webSectionIndex hypertext_again = 0"
  "isLoading hypertext_again" "content hypertext_again = Some []"
  by (simp_all add: hypertext_again_def handleTopicChange_def hypertext_done_simps)

text \<open>
  The topic is requested a second time through \<open>handleTopicChange\<close>, which marks the
  session loading: the key is the same, the entry is in the cache, and the effect starts
  a new definition stream.
\<close>

theorem second_request_counterexample:
  "map_option cacheKey (activeTab App_again) = Some ''wiki:hypertext:0:English'' \<and>
   map_option cached_content (cache App_again ''wiki:hypertext:0:English'') =
     Some ''Hypertext is text with links.'' \<and>
   map_option run_body (snd (main_effect 5000 App_again)) =
     Some (FetchData (StreamWikiDefinition ''Hypertext'' ''English''))"
proof -
  have a: "activeTab App_again = Some hypertext_again"
    by (rule activeTab_single)
       (simp_all add: App_again_fields hypertext_again_def [symmetric] hypertext_again_simps)
  have k: "cacheKey hypertext_again = ''wiki:hypertext:0:English''"
    by (simp add: hypertext_again_simps key_defs)
  have c: "select_call hypertext_again = StreamWikiDefinition ''Hypertext'' ''English''"
    by (simp add: select_call_def hypertext_again_simps image_file_def truthy_def trim_Hypertext
      Hypertext_is_no_link)
  show ?thesis
    by (simp add: a k c main_effect_def hypertext_again_simps App_again_fields App_hypertext_fields start_run_def)
qed

lemma App_scanned_fields:
  "tabs App_scanned = [scanned_done]"
  "activeTabId App_scanned = ''default-tab''"
  "cache App_scanned = cache App_hypertext"
  by (simp_all add: App_scanned_def on_activeTab_def scanned_done_def
      activeTab_single [of hypertext_done] App_hypertext_fields hypertext_done_simps updateActiveTab_def)

lemma scanned_done_simps:
  "tab_id scanned_done = ''default-tab''" "currentTopic scanned_done = ''Analyze Document''"
  "language scanned_done = ''English''"
  "documentName scanned_done = Some ''scan.pdf''" "documentContext scanned_done = None"
  "fileData scanned_done = Some \<lparr>base64 = ''JVBERi0xLjQ='', mimeType = ''application/pdf''\<rparr>"
  "\<not> isWebSearchMode scanned_done"
  "isEbookMode scanned_done" "webSectionIndex scanned_done = 0"
  "isLoading scanned_done" "content scanned_done = Some []"
  by (simp_all add: scanned_done_def upload_binary_def hypertext_done_simps)

lemma key_scanned: "cacheKey scanned_done = ''wiki:doc(scan.pdf):analyze document:0:English''"
  by (simp add: scanned_done_simps key_defs)

lemma trim_Analyze: "trim ''Analyze Document'' = ''Analyze Document''"
  by (simp add: trim_def is_space_def)

lemma Analyze_is_no_link: "\<not> isYouTubeUrl ''Analyze Document''" "\<not> isUrl ''Analyze Document''"
  by (simp_all add: regex_defs)

lemma call_scanned: "select_call scanned_done = StreamInDocumentQuery ''Analyze Document'' None
         (Some \<lparr>base64 = ''JVBERi0xLjQ='', mimeType = ''application/pdf''\<rparr>) ''English''"
  by (simp add: select_call_def scanned_done_simps image_file_def startsWith_def truthy_def trim_Analyze Analyze_is_no_link)

lemma effect_scanned:
  "main_effect 8000 App_scanned = (App_scanned\<lparr>finalContentRef := [], finalSourcesRef := []\<rparr>, Some scan_run)"
proof -
  have a: "activeTab App_scanned = Some scanned_done"
    by (rule activeTab_single) (simp_all add: App_scanned_fields scanned_done_simps)
  show ?thesis
    by (simp add: main_effect_def a scanned_done_simps key_scanned call_scanned App_scanned_fields
        App_hypertext_fields scan_run_def)
qed

lemma scan_run_simps:
  "run_tabId scan_run = ''default-tab''" "run_activeTab scan_run = scanned_done"
  "run_body scan_run = FetchData (StreamInDocumentQuery ''Analyze Document'' None
         (Some \<lparr>base64 = ''JVBERi0xLjQ='', mimeType = ''application/pdf''\<rparr>) ''English'')"
  "startTime scan_run = 8000" "\<not> isCancelled scan_run"
  "accumulatedContent scan_run = []" "\<not> finished scan_run"
  by (simp_all add: scan_run_def start_run_def)

lemma App_scan_failed_fields:
  "tabs App_scan_failed = [scan_failed]"
  "activeTabId App_scan_failed = ''default-tab''"
  "cache App_scan_failed ''wiki:hypertext:0:English'' = cache App_hypertext ''wiki:hypertext:0:English''"
  unfolding App_scan_failed_def effect_then_def effect_scanned
  by (simp_all add: run_step_def fetchData_step_def finally_block_def catch_block_def Let_def updateActiveTab_def
      scan_run_simps App_scanned_fields scanned_done_simps key_scanned scan_failed_def)

lemma cleared_simps:
  "tab_id cleared = ''default-tab''" "currentTopic cleared = ''Hypertext''"
  "language cleared = ''English''"
  "documentName cleared = None" "documentContext cleared = None"
  "fileData cleared = None" "\<not> isWebSearchMode cleared"
  "\<not> isEbookMode cleared" "webSectionIndex cleared = 0"
  "\<not> isLoading cleared" "content cleared = Some []"
  by (simp_all add: cleared_def handleClearDocument_def scan_failed_def scanned_done_simps)

lemma App_cleared_fields:
  "tabs App_cleared = [cleared]"
  "activeTabId App_cleared = ''default-tab''"
  "cache App_cleared = cache App_scan_failed"
  by (simp_all add: App_cleared_def on_activeTab_def activeTab_single [of scan_failed]
      App_scan_failed_fields scan_failed_def scanned_done_simps updateActiveTab_def cleared_def)

lemma hypertext_completes:
  "run_step 1200 Completes hypertext_streaming App_streaming = (hypertext_streaming\<lparr>finished := True\<rparr>, App_hypertext)"
  unfolding App_hypertext_def effect_then_def effect_loaded App_streaming_def hypertext_streaming_def
  by (simp add: run_step_def fetchData_step_def hypertext_run_simps Let_def)

lemma hypertext_streams:
  "run_steps [(100, Yields (Chunk ''Hypertext is text with links.'' None))] hypertext_run
     App_loaded = (hypertext_streaming, App_streaming)"
  by (simp add: App_streaming_def hypertext_streaming_def run_step_def fetchData_step_def
      hypertext_run_simps Let_def prod_eq_iff)

lemma activeTab_loaded: "activeTab App_loaded = Some hypertext_tab"
  by (rule activeTab_single) (simp_all add: App_loaded_eq initial_App_def hypertext_tab_simps)

lemma activeTab_cleared: "activeTab App_cleared = Some cleared"
  by (rule activeTab_single) (simp_all add: App_cleared_fields cleared_simps)

lemma key_cleared: "cacheKey cleared = ''wiki:hypertext:0:English''"
  by (simp add: cleared_simps key_defs)

lemma activeTab_again: "activeTab App_again = Some hypertext_again"
  by (rule activeTab_single)
     (simp_all add: App_again_fields hypertext_again_def [symmetric] hypertext_again_simps)

lemma call_again:
  "select_call hypertext_again = StreamWikiDefinition ''Hypertext'' ''English''"
  by (simp add: select_call_def hypertext_again_simps image_file_def truthy_def trim_Hypertext
      Hypertext_is_no_link)

theorem cached_result_hydrates_idle_session_witness:
  "activeTab App_loaded = Some hypertext_tab \<and>
   main_effect 0 App_loaded = (App_loaded, Some hypertext_run) \<and>
   run_steps [(100, Yields (Chunk ''Hypertext is text with links.'' None))] hypertext_run
     App_loaded = (hypertext_streaming, App_streaming) \<and>
   \<not> finished hypertext_streaming \<and>
   run_step 1200 Completes hypertext_streaming App_streaming =
     (hypertext_streaming\<lparr>finished := True\<rparr>, App_hypertext) \<and>
   activeTab App_cleared = Some cleared \<and> currentTopic cleared = ''Hypertext'' \<and>
   cacheKey cleared = cacheKey hypertext_tab \<and>
   cache App_cleared (cacheKey hypertext_tab) = cache App_hypertext (cacheKey hypertext_tab) \<and>
   \<not> isEbookMode cleared \<and> \<not> isLoading cleared \<and> content cleared = Some [] \<and>
   snd (main_effect 9500 App_cleared) = None \<and>
   cache (fst (main_effect 9500 App_cleared)) = cache App_cleared \<and>
   map content (tabs (fst (main_effect 9500 App_cleared))) =
     [Some ''Hypertext is text with links.''] \<and>
   activeTab App_again = Some hypertext_again \<and> isLoading hypertext_again \<and>
   snd (main_effect 5000 App_again) =
     Some (start_run ''default-tab'' hypertext_again
             (FetchData (StreamWikiDefinition ''Hypertext'' ''English'')) 5000)"
proof -
  have k: "cacheKey cleared = cacheKey hypertext_tab"
    by (simp add: key_cleared key_hypertext)
  have c: "cache App_cleared (cacheKey hypertext_tab) =
           cache App_hypertext (cacheKey hypertext_tab)"
    by (simp add: key_hypertext App_cleared_fields App_scan_failed_fields)
  have u: "\<not> finished hypertext_streaming"
    by (simp add: hypertext_streaming_def hypertext_run_simps)
  have i: "\<not> isEbookMode cleared" "\<not> isLoading cleared" "content cleared = Some []"
    "currentTopic cleared = ''Hypertext''"
    by (simp_all add: cleared_simps)
  have h: "main_effect 9500 App_cleared =
           (App_cleared\<lparr>tabs := updateActiveTab (activeTabId App_cleared)
                (\<lambda>t. t\<lparr>content :=
                          Some (case Completes of Resolves c srcs \<Rightarrow> c
                                | _ \<Rightarrow> accumulatedContent (hypertext_streaming\<lparr>finished := True\<rparr>)),
                        generationTime := Some (1200 - 0),
                        groundingSources := finalSourcesRef App_hypertext,
                        error := None, isLoading := False, title := currentTopic cleared\<rparr>)
                (tabs App_cleared)\<rparr>,
            None) \<and>
         (\<forall>t s' b. activeTab s' = Some b \<and> currentTopic b \<noteq> [] \<and>
            \<not> (isEbookMode b \<and> \<not> isWebSearchMode b \<and> fileData b = None \<and>
               truthy (documentContext b)) \<and> isLoading b \<longrightarrow>
            snd (main_effect t s') =
              Some (start_run (activeTabId s') b (FetchData (select_call b)) t))"
    by (rule cached_result_hydrates_idle_session
          [OF activeTab_loaded effect_loaded hypertext_run_simps(3) hypertext_streams u
              hypertext_completes _ _ activeTab_cleared _ k c])
       (simp_all add: cleared_simps)
  from h have h1: "main_effect 9500 App_cleared =
           (App_cleared\<lparr>tabs := updateActiveTab (activeTabId App_cleared)
                (\<lambda>t. t\<lparr>content :=
                          Some (case Completes of Resolves c srcs \<Rightarrow> c
                                | _ \<Rightarrow> accumulatedContent (hypertext_streaming\<lparr>finished := True\<rparr>)),
                        generationTime := Some (1200 - 0),
                        groundingSources := finalSourcesRef App_hypertext,
                        error := None, isLoading := False, title := currentTopic cleared\<rparr>)
                (tabs App_cleared)\<rparr>,
            None)" ..
  from h have h2: "activeTab App_again = Some hypertext_again \<and>
      currentTopic hypertext_again \<noteq> [] \<and>
      \<not> (isEbookMode hypertext_again \<and> \<not> isWebSearchMode hypertext_again \<and>
         fileData hypertext_again = None \<and> truthy (documentContext hypertext_again)) \<and>
      isLoading hypertext_again \<longrightarrow>
      snd (main_effect 5000 App_again) =
        Some (start_run (activeTabId App_again) hypertext_again
                (FetchData (select_call hypertext_again)) 5000)"
    by blast
  have "snd (main_effect 9500 App_cleared) = None"
    "cache (fst (main_effect 9500 App_cleared)) = cache App_cleared"
    by (simp_all add: h1)
  moreover have "map content (tabs (fst (main_effect 9500 App_cleared))) =
          [Some ''Hypertext is text with links.'']"
    by (simp add: h1 App_cleared_fields updateActiveTab_def cleared_simps
        hypertext_streaming_def)
  moreover have "snd (main_effect 5000 App_again) =
     Some (start_run ''default-tab'' hypertext_again
             (FetchData (StreamWikiDefinition ''Hypertext'' ''English'')) 5000)"
    using h2 by (simp add: activeTab_again hypertext_again_simps call_again App_again_fields)
  moreover have "isLoading hypertext_again"
    by (simp add: hypertext_again_simps)
  moreover note activeTab_loaded effect_loaded hypertext_streams u hypertext_completes
    activeTab_cleared k c i activeTab_again
  ultimately show ?thesis by (intro conjI)
qed

section \<open>Stream errors\<close>

text \<open>
  Claim C3 at a failing stream. The first definition stream yields one chunk, then an
  error event, and throws. The \<open>catch\<close> block sets the error and clears the loading flag;
  the \<open>finally\<close> block then runs as on every way out and writes the cache entry for the
  key, holding the partial content.
\<close>

theorem stream_error_writes_cache_entry:
  "map error (tabs App_failed) = [Some ''503''] \<and>
   map isLoading (tabs App_failed) = [False] \<and>
   map_option cached_content (cache App_failed (cacheKey hypertext_tab)) = Some ''Hyper''"
  unfolding App_failed_def effect_then_def effect_loaded
  by (simp add: App_loaded_eq step_defs hypertext_run_simps key_hypertext initial_App_def
      hypertext_tab_simps)

text \<open>
  In general: an exception in a run of \<open>fetchData\<close> that was not cancelled leaves the
  error on the tab, the loading flag cleared, and a cache entry under the key of the run.
\<close>

lemma thrown_fetch_is_cached:
  assumes "run_body r = FetchData call" and "\<not> finished r" and "\<not> isCancelled r"
  shows "cache (snd (run_step now (Throws msg) r s)) (cacheKey (run_activeTab r)) =
           Some \<lparr>cached_content = finalContentRef s,
                 cached_generationTime = Some (now - startTime r),
                 cached_sources = Some (finalSourcesRef s),
                 cached_language = Some (language (run_activeTab r))\<rparr>"
    and "tabs (snd (run_step now (Throws msg) r s)) =
           updateActiveTab (run_tabId r)
             (\<lambda>t. t\<lparr>isLoading := False, generationTime := Some (now - startTime r),
                     title := (case documentName (run_activeTab r) of
                                 None \<Rightarrow> currentTopic (run_activeTab r)
                               | Some n \<Rightarrow> if n = [] then currentTopic (run_activeTab r) else n)\<rparr>)
             (updateActiveTab (run_tabId r) (\<lambda>t. t\<lparr>error := Some msg, isLoading := False\<rparr>) (tabs s))"
  using assms
  by (cases call; simp add: run_step_def fetchData_step_def finally_block_def catch_block_def Let_def)+

section \<open>Page translation\<close>

lemma on_activeTab_single:
  "tabs s = [t] \<Longrightarrow> tab_id t = activeTabId s \<Longrightarrow> on_activeTab h s = s\<lparr>tabs := [h t t]\<rparr>"
  by (simp add: on_activeTab_def activeTab_def updateActiveTab_def)

lemma main_effect_translates:
  assumes "activeTab s = Some a" and "currentTopic a \<noteq> []"
    and "isEbookMode a" and "\<not> isWebSearchMode a" and "fileData a = None"
    and "truthy (documentContext a)" and "language a \<noteq> ''English''" and "isLoading a"
  shows "main_effect now s =
     (s, Some (start_run (activeTabId s) a
                 (FetchTranslation
                    (case page_at (ebookPages a) (currentPage a) of Some p \<Rightarrow> p | None \<Rightarrow> [])
                    (language a)) now))"
  using assms by (simp add: main_effect_def)

lemma translation_keeps_cache:
  "run_body r = FetchTranslation p l \<Longrightarrow> cache (snd (run_step now sig r s)) = cache s"
  by (cases sig) (auto simp: run_step_def fetchTranslation_step_def Let_def split: StreamEvent.splits)

lemma translation_run_single:
  assumes "tabs s = [t]" and "tab_id t = i"
  shows "snd (run_steps [(n1, Yields (Chunk c None)), (n2, Completes)]
                (start_run i a (FetchTranslation p l) n0) s) =
         s\<lparr>tabs := [t\<lparr>content := Some c, isLoading := False\<rparr>]\<rparr>"
  using assms
  by (simp add: run_step_def fetchTranslation_step_def start_run_def updateActiveTab_def Let_def)

lemma page_handlers_keep_mode:
  "isEbookMode (handlePrevPage b b) = isEbookMode b"
  "isWebSearchMode (handlePrevPage b b) = isWebSearchMode b"
  "fileData (handlePrevPage b b) = fileData b"
  "documentContext (handlePrevPage b b) = documentContext b"
  "currentTopic (handlePrevPage b b) = currentTopic b"
  "language (handlePrevPage b b) = language b"
  "ebookPages (handlePrevPage b b) = ebookPages b"
  "currentPage (handlePrevPage b b) = max (currentPage b - 1) 0"
  "isLoading (handlePrevPage b b) = (language b \<noteq> ''English'')"
  "isEbookMode (handleNextPage b b) = isEbookMode b"
  "isWebSearchMode (handleNextPage b b) = isWebSearchMode b"
  "fileData (handleNextPage b b) = fileData b"
  "documentContext (handleNextPage b b) = documentContext b"
  "currentTopic (handleNextPage b b) = currentTopic b"
  "language (handleNextPage b b) = language b"
  "ebookPages (handleNextPage b b) = ebookPages b"
  "currentPage (handleNextPage b b) = min (currentPage b + 1) (int (length (ebookPages b)) - 1)"
  "isLoading (handleNextPage b b) = (language b \<noteq> ''English'')"
  by (simp_all add: handlePrevPage_def handleNextPage_def Let_def)

text \<open>
  Claim C7, as the code has it. In a session that reads a locally paginated document in
  a language other than English, every turn of the page, backwards or forwards, makes the
  effect start a streaming translation of the page turned to, whether or not that page
  was translated before; and no step of a translation writes to the result cache.
\<close>

theorem page_turn_translates_again:
  assumes "isEbookMode b" and "\<not> isWebSearchMode b" and "fileData b = None"
    and "truthy (documentContext b)" and "currentTopic b \<noteq> []"
    and "language b \<noteq> ''English''"
  shows "(activeTab s = Some (handlePrevPage b b) \<longrightarrow>
          main_effect now s =
            (s, Some (start_run (activeTabId s) (handlePrevPage b b)
                        (FetchTranslation
                           (case page_at (ebookPages b) (max (currentPage b - 1) 0) of
                              Some p \<Rightarrow> p | None \<Rightarrow> [])
                           (language b)) now))) \<and>
         (activeTab s = Some (handleNextPage b b) \<longrightarrow>
          main_effect now s =
            (s, Some (start_run (activeTabId s) (handleNextPage b b)
                        (FetchTranslation
                           (case page_at (ebookPages b)
                                   (min (currentPage b + 1) (int (length (ebookPages b)) - 1)) of
                              Some p \<Rightarrow> p | None \<Rightarrow> [])
                           (language b)) now))) \<and>
         (run_body r = FetchTranslation p l \<longrightarrow> cache (snd (run_step t sig r s')) = cache s')"
proof (intro conjI impI)
  assume a: "activeTab s = Some (handlePrevPage b b)"
  from main_effect_translates [OF a, of now] assms
  show "main_effect now s =
            (s, Some (start_run (activeTabId s) (handlePrevPage b b)
                        (FetchTranslation
                           (case page_at (ebookPages b) (max (currentPage b - 1) 0) of
                              Some p \<Rightarrow> p | None \<Rightarrow> [])
                           (language b)) now))"
    by (simp add: page_handlers_keep_mode)
next
  assume a: "activeTab s = Some (handleNextPage b b)"
  from main_effect_translates [OF a, of now] assms
  show "main_effect now s =
            (s, Some (start_run (activeTabId s) (handleNextPage b b)
                        (FetchTranslation
                           (case page_at (ebookPages b)
                                   (min (currentPage b + 1) (int (length (ebookPages b)) - 1)) of
                              Some p \<Rightarrow> p | None \<Rightarrow> [])
                           (language b)) now))"
    by (simp add: page_handlers_keep_mode)
next
  assume "run_body r = FetchTranslation p l"
  then show "cache (snd (run_step t sig r s')) = cache s'"
    by (rule translation_keeps_cache)
qed

lemma book_tab_simps:
  "tab_id book_tab = ''default-tab''" "currentTopic book_tab = ''book.pdf''"
  "language book_tab = ''English''" "documentContext book_tab = Some ''one\<newline>\<newline>two''"
  "fileData book_tab = None" "\<not> isWebSearchMode book_tab" "isEbookMode book_tab"
  "ebookPages book_tab = [''one'', ''two'']" "currentPage book_tab = 0"
  "content book_tab = Some ''one''"
  by (simp_all add: book_tab_def upload_text_def hypertext_done_simps)

lemma spanish_tab_simps:
  "tab_id spanish_tab = ''default-tab''" "currentTopic spanish_tab = ''book.pdf''"
  "language spanish_tab = ''Spanish''" "documentContext spanish_tab = Some ''one\<newline>\<newline>two''"
  "fileData spanish_tab = None" "\<not> isWebSearchMode spanish_tab" "isEbookMode spanish_tab"
  "ebookPages spanish_tab = [''one'', ''two'']" "currentPage spanish_tab = 0"
  "content spanish_tab = Some ''one''" "isLoading spanish_tab"
  by (simp_all add: spanish_tab_def handleLanguageChange_def book_tab_simps)

lemma page0_tab_simps:
  "tab_id page0_tab = ''default-tab''" "currentTopic page0_tab = ''book.pdf''"
  "language page0_tab = ''Spanish''" "documentContext page0_tab = Some ''one\<newline>\<newline>two''"
  "fileData page0_tab = None" "\<not> isWebSearchMode page0_tab" "isEbookMode page0_tab"
  "ebookPages page0_tab = [''one'', ''two'']" "currentPage page0_tab = 0"
  "content page0_tab = Some ''uno''" "\<not> isLoading page0_tab"
  by (simp_all add: page0_tab_def spanish_tab_simps)

lemma turning_tab_simps:
  "tab_id turning_tab = ''default-tab''" "currentTopic turning_tab = ''book.pdf''"
  "language turning_tab = ''Spanish''" "documentContext turning_tab = Some ''one\<newline>\<newline>two''"
  "fileData turning_tab = None" "\<not> isWebSearchMode turning_tab" "isEbookMode turning_tab"
  "ebookPages turning_tab = [''one'', ''two'']" "currentPage turning_tab = 1"
  "content turning_tab = Some []" "isLoading turning_tab"
  by (simp_all add: turning_tab_def handleNextPage_def Let_def page0_tab_simps)

lemma page1_tab_simps:
  "tab_id page1_tab = ''default-tab''" "currentTopic page1_tab = ''book.pdf''"
  "language page1_tab = ''Spanish''" "documentContext page1_tab = Some ''one\<newline>\<newline>two''"
  "fileData page1_tab = None" "\<not> isWebSearchMode page1_tab" "isEbookMode page1_tab"
  "ebookPages page1_tab = [''one'', ''two'']" "currentPage page1_tab = 1"
  "content page1_tab = Some ''dos''" "\<not> isLoading page1_tab"
  by (simp_all add: page1_tab_def turning_tab_simps)

lemma App_book_eq: "App_book = App_hypertext\<lparr>tabs := [book_tab]\<rparr>"
  unfolding App_book_def book_tab_def
  by (rule on_activeTab_single) (simp_all add: App_hypertext_fields hypertext_done_simps)

lemma App_spanish_eq: "App_spanish = App_hypertext\<lparr>tabs := [spanish_tab]\<rparr>"
  unfolding App_spanish_def spanish_tab_def
  by (simp add: App_book_eq on_activeTab_single [of _ book_tab] App_hypertext_fields book_tab_simps)

lemma effect_spanish:
  "main_effect now App_spanish =
     (App_spanish,
      Some (start_run ''default-tab'' spanish_tab (FetchTranslation ''one'' ''Spanish'') now))"
proof -
  have "activeTab App_spanish = Some spanish_tab"
    by (rule activeTab_single) (simp_all add: App_spanish_eq App_hypertext_fields spanish_tab_simps)
  from main_effect_translates [OF this, of now] show ?thesis
    by (simp add: spanish_tab_simps truthy_def page_at_def App_spanish_eq App_hypertext_fields)
qed

lemma App_page0_eq: "App_page0 = App_hypertext\<lparr>tabs := [page0_tab]\<rparr>"
  unfolding App_page0_def effect_then_def effect_spanish
  by (simp del: run_steps.simps
        add: translation_run_single [of _ spanish_tab] App_spanish_eq spanish_tab_simps
          page0_tab_def)

lemma App_turning_eq: "App_turning = App_hypertext\<lparr>tabs := [turning_tab]\<rparr>"
  unfolding App_turning_def turning_tab_def
  by (simp add: App_page0_eq on_activeTab_single [of _ page0_tab] App_hypertext_fields page0_tab_simps)

lemma effect_turning:
  "main_effect now App_turning =
     (App_turning,
      Some (start_run ''default-tab'' turning_tab (FetchTranslation ''two'' ''Spanish'') now))"
proof -
  have "activeTab App_turning = Some turning_tab"
    by (rule activeTab_single) (simp_all add: App_turning_eq App_hypertext_fields turning_tab_simps)
  from main_effect_translates [OF this, of now] show ?thesis
    by (simp add: turning_tab_simps truthy_def page_at_def App_turning_eq App_hypertext_fields)
qed

lemma App_page1_eq: "App_page1 = App_hypertext\<lparr>tabs := [page1_tab]\<rparr>"
  unfolding App_page1_def effect_then_def effect_turning
  by (simp del: run_steps.simps
        add: translation_run_single [of _ turning_tab] App_turning_eq turning_tab_simps
          page1_tab_def)

lemma App_revisit_eq: "App_revisit = App_hypertext\<lparr>tabs := [revisit_tab]\<rparr>"
  unfolding App_revisit_def revisit_tab_def
  by (simp add: App_page1_eq on_activeTab_single [of _ page1_tab] App_hypertext_fields page1_tab_simps)

lemma activeTab_revisit: "activeTab App_revisit = Some (handlePrevPage page1_tab page1_tab)"
  by (rule activeTab_single)
     (simp_all add: App_revisit_eq revisit_tab_def App_hypertext_fields page_handlers_keep_mode
        handlePrevPage_def Let_def page1_tab_simps)

lemma activeTab_turning: "activeTab App_turning = Some (handleNextPage page0_tab page0_tab)"
  by (rule activeTab_single)
     (simp_all add: App_turning_eq turning_tab_def App_hypertext_fields
        handleNextPage_def Let_def page0_tab_simps)

theorem page_turn_translates_again_witness:
  "activeTab App_revisit = Some (handlePrevPage page1_tab page1_tab) \<and>
   map_option run_body (snd (main_effect 40000 App_revisit)) =
     Some (FetchTranslation ''one'' ''Spanish'') \<and>
   activeTab App_turning = Some (handleNextPage page0_tab page0_tab) \<and>
   map_option run_body (snd (main_effect 30000 App_turning)) =
     Some (FetchTranslation ''two'' ''Spanish'') \<and>
   cache (snd (run_step 20100 (Yields (Chunk ''uno'' None))
                 (start_run ''default-tab'' spanish_tab (FetchTranslation ''one'' ''Spanish'') 20000)
                 App_spanish)) = cache App_spanish"
proof -
  have m1: "isEbookMode page1_tab" "\<not> isWebSearchMode page1_tab" "fileData page1_tab = None"
    "truthy (documentContext page1_tab)" "currentTopic page1_tab \<noteq> []"
    "language page1_tab \<noteq> ''English''"
    by (simp_all add: page1_tab_simps truthy_def)
  have m0: "isEbookMode page0_tab" "\<not> isWebSearchMode page0_tab" "fileData page0_tab = None"
    "truthy (documentContext page0_tab)" "currentTopic page0_tab \<noteq> []"
    "language page0_tab \<noteq> ''English''"
    by (simp_all add: page0_tab_simps truthy_def)
  have "map_option run_body (snd (main_effect 40000 App_revisit)) =
     Some (FetchTranslation ''one'' ''Spanish'')"
    using page_turn_translates_again [OF m1, of App_revisit 40000] activeTab_revisit
    by (simp add: start_run_def page1_tab_simps page_at_def)
  moreover have "map_option run_body (snd (main_effect 30000 App_turning)) =
     Some (FetchTranslation ''two'' ''Spanish'')"
    using page_turn_translates_again [OF m0, of App_turning 30000] activeTab_turning
    by (simp add: start_run_def page0_tab_simps page_at_def)
  moreover have "cache (snd (run_step 20100 (Yields (Chunk ''uno'' None))
                 (start_run ''default-tab'' spanish_tab (FetchTranslation ''one'' ''Spanish'') 20000)
                 App_spanish)) = cache App_spanish"
    using page_turn_translates_again [OF m0,
      of _ _ "start_run ''default-tab'' spanish_tab (FetchTranslation ''one'' ''Spanish'') 20000"
         "''one''" "''Spanish''" 20100 "Yields (Chunk ''uno'' None)" App_spanish]
    by (simp add: start_run_def)
  ultimately show ?thesis
    using activeTab_revisit activeTab_turning by (intro conjI)
qed

text \<open>
  The first page had been translated into Spanish before; on the way back its
  translation is requested from the service again, and the cache holds nothing but the
  entry of the first definition.
\<close>

theorem page_turn_translates_again_counterexample:
  "map_option run_body (snd (main_effect 20000 App_spanish)) =
     Some (FetchTranslation ''one'' ''Spanish'') \<and>
   map content (tabs App_page0) = [Some ''uno''] \<and>
   map currentPage (tabs App_revisit) = [0] \<and>
   map language (tabs App_revisit) = [''Spanish''] \<and>
   map_option run_body (snd (main_effect 40000 App_revisit)) =
     Some (FetchTranslation ''one'' ''Spanish'') \<and>
   dom (cache App_revisit) = {''wiki:hypertext:0:English''}"
proof -
  have a: "activeTab App_revisit = Some revisit_tab"
    by (rule activeTab_single)
       (simp_all add: App_revisit_eq revisit_tab_def App_hypertext_fields handlePrevPage_def
          Let_def page1_tab_simps)
  have r: "currentTopic revisit_tab = ''book.pdf''" "isEbookMode revisit_tab"
    "\<not> isWebSearchMode revisit_tab" "fileData revisit_tab = None"
    "documentContext revisit_tab = Some ''one\<newline>\<newline>two''" "language revisit_tab = ''Spanish''"
    "isLoading revisit_tab" "ebookPages revisit_tab = [''one'', ''two'']"
    "currentPage revisit_tab = 0"
    by (simp_all add: revisit_tab_def page_handlers_keep_mode page1_tab_simps)
  have "map_option run_body (snd (main_effect 40000 App_revisit)) =
     Some (FetchTranslation ''one'' ''Spanish'')"
    using main_effect_translates [OF a, of 40000]
    by (simp add: r truthy_def page_at_def start_run_def)
  then show ?thesis
    by (simp add: effect_spanish start_run_def App_page0_eq page0_tab_simps App_revisit_eq r
        App_hypertext_fields)
qed

section \<open>Diagram requests\<close>

lemma prompts_linked:
  "diagram_prompts ''Hypertext is text with links. [DIAGRAM: linked pages]'' = [''linked pages'']"
  by code_simp

lemma prompts_hyperlink:
  "diagram_prompts ''A hyperlink joins pages. [DIAGRAM: linked pages]'' = [''linked pages'']"
  by code_simp

lemma prompts_twice:
  "diagram_prompts ''[DIAGRAM: linked pages] Hypertext. [DIAGRAM: linked pages]'' =
     [''linked pages'', ''linked pages'']"
  by code_simp

lemma App_linked_eq:
  "App_linked =
     initial_App\<lparr>tabs := [linked_tab],
       cache := [''wiki:hypertext:0:English'' \<mapsto>
          \<lparr>cached_content = ''Hypertext is text with links. [DIAGRAM: linked pages]'',
           cached_generationTime = Some 1200,
           cached_sources = Some [], cached_language = Some ''English''\<rparr>],
       finalContentRef := ''Hypertext is text with links. [DIAGRAM: linked pages]''\<rparr>"
  unfolding App_linked_def effect_then_def effect_loaded
  by (simp add: App_loaded_eq step_defs hypertext_run_simps key_hypertext initial_App_def
      hypertext_tab_simps linked_tab_def)

lemma linked_tab_simps:
  "tab_id linked_tab = ''default-tab''"
  "content linked_tab = Some ''Hypertext is text with links. [DIAGRAM: linked pages]''"
  "generatedDiagrams linked_tab = Map.empty"
  by (simp_all add: linked_tab_def hypertext_tab_simps)
     (simp add: hypertext_tab_def initial_effect_def createNewTab_def truthy_def)

lemma diagram_effect_linked:
  "diagram_effect App_linked =
     (App_linked\<lparr>pendingDiagramsRef := {''linked pages''}\<rparr>, [(''default-tab'', ''linked pages'')])"
proof -
  have "activeTab App_linked = Some linked_tab"
    by (rule activeTab_single) (simp_all add: App_linked_eq initial_App_def linked_tab_simps)
  then show ?thesis
    by (simp add: diagram_effect_def linked_tab_simps prompts_linked truthy_def)
       (simp add: App_linked_eq initial_App_def)
qed

lemma App_pending_eq: "App_pending = App_linked\<lparr>pendingDiagramsRef := {''linked pages''}\<rparr>"
  by (simp add: App_pending_def diagram_effect_linked)

lemma hyperlink_tab_simps:
  "tab_id hyperlink_tab = ''tab-b''" "currentTopic hyperlink_tab = ''Hyperlink''"
  "language hyperlink_tab = ''English''"
  "documentName hyperlink_tab = None" "documentContext hyperlink_tab = None"
  "fileData hyperlink_tab = None" "\<not> isWebSearchMode hyperlink_tab"
  "\<not> isEbookMode hyperlink_tab" "webSectionIndex hyperlink_tab = 0"
  "isLoading hyperlink_tab" "content hyperlink_tab = Some []"
  "generatedDiagrams hyperlink_tab = Map.empty"
  by (simp_all add: hyperlink_tab_def handleTopicChange_def createNewTab_def)

lemma App_new_fields:
  "tabs App_new = [linked_tab, hyperlink_tab]" "activeTabId App_new = ''tab-b''"
  "pendingDiagramsRef App_new = {''linked pages''}"
  by (simp_all add: App_new_def handleTopicChange_App_def handleNewTab_def on_activeTab_def
      activeTab_def App_pending_eq App_linked_eq initial_App_def linked_tab_simps
      updateActiveTab_def hyperlink_tab_def createNewTab_def)

lemma trim_Hyperlink: "trim ''Hyperlink'' = ''Hyperlink''"
  by (simp add: trim_def is_space_def)

lemma Hyperlink_is_no_link: "\<not> isYouTubeUrl ''Hyperlink''" "\<not> isUrl ''Hyperlink''"
  by (simp_all add: regex_defs)

lemma activeTab_second: "tabs s = [t, u] \<Longrightarrow> tab_id t \<noteq> activeTabId s \<Longrightarrow> tab_id u = activeTabId s \<Longrightarrow> activeTab s = Some u"
  by (simp add: activeTab_def)

lemma effect_new:
  "main_effect 5000 App_new =
     (App_new\<lparr>finalContentRef := [], finalSourcesRef := []\<rparr>,
      Some (start_run ''tab-b'' hyperlink_tab (FetchData (StreamWikiDefinition ''Hyperlink'' ''English'')) 5000))"
proof -
  have a: "activeTab App_new = Some hyperlink_tab"
    by (rule activeTab_second [of _ linked_tab]) (simp_all add: App_new_fields linked_tab_simps hyperlink_tab_simps)
  have k: "cacheKey hyperlink_tab = ''wiki:hyperlink:0:English''"
    by (simp add: hyperlink_tab_simps key_defs)
  have c: "cache App_new = cache App_linked"
    by (simp add: App_new_def handleTopicChange_App_def handleNewTab_def on_activeTab_def
      activeTab_def App_pending_eq App_linked_eq initial_App_def linked_tab_simps)
  have s: "select_call hyperlink_tab = StreamWikiDefinition ''Hyperlink'' ''English''"
    by (simp add: select_call_def hyperlink_tab_simps image_file_def truthy_def trim_Hyperlink
      Hyperlink_is_no_link)
  show ?thesis
    by (simp add: main_effect_def a k c s hyperlink_tab_simps App_new_fields App_linked_eq)
qed

lemma App_second_fields:
  "tabs App_second = [linked_tab, hyperlink_done]" "activeTabId App_second = ''tab-b''"
  "pendingDiagramsRef App_second = {''linked pages''}"
  unfolding App_second_def effect_then_def effect_new
  by (simp_all add: step_defs App_new_fields linked_tab_simps hyperlink_tab_simps hyperlink_done_def)

lemma hyperlink_done_simps:
  "tab_id hyperlink_done = ''tab-b''"
  "content hyperlink_done = Some ''A hyperlink joins pages. [DIAGRAM: linked pages]''"
  "generatedDiagrams hyperlink_done = Map.empty"
  by (simp_all add: hyperlink_done_def hyperlink_tab_simps)

text \<open>
  Within one run of the effect no prompt is requested twice, and none that was pending
  already; the prompts requested are added to the pending set.
\<close>

lemma request_diagrams_props:
  "request_diagrams g ps pending = (pending', requested) \<Longrightarrow>
   pending' = pending \<union> set requested \<and> set requested \<inter> pending = {} \<and>
   distinct requested"
proof (induction ps arbitrary: pending pending' requested)
  case Nil
  then show ?case by simp
next
  case (Cons p ps)
  show ?case
  proof (cases "\<not> truthy (g p) \<and> p \<notin> pending")
    case True
    obtain p1 r1 where rec: "request_diagrams g ps (insert p pending) = (p1, r1)"
      by (cases "request_diagrams g ps (insert p pending)")
    from Cons.IH [OF rec] have
      "p1 = insert p pending \<union> set r1" "set r1 \<inter> insert p pending = {}" "distinct r1"
      by simp_all
    moreover from Cons.prems True rec have "pending' = p1" "requested = p # r1"
      by simp_all
    ultimately show ?thesis using True by auto
  next
    case False
    with Cons.prems have "request_diagrams g ps pending = (pending', requested)"
      by auto
    then show ?thesis by (rule Cons.IH)
  qed
qed

lemma diagram_effect_distinct: "distinct (map snd (snd (diagram_effect s)))"
proof (cases "activeTab s")
  case None
  then show ?thesis by (simp add: diagram_effect_def)
next
  case (Some a)
  show ?thesis
  proof (cases "content a")
    case None
    with Some show ?thesis by (simp add: diagram_effect_def)
  next
    case (Some c)
    obtain p1 r1 where rec:
      "request_diagrams (generatedDiagrams a) (diagram_prompts c) (pendingDiagramsRef s) = (p1, r1)"
      by (cases "request_diagrams (generatedDiagrams a) (diagram_prompts c) (pendingDiagramsRef s)")
    from request_diagrams_props [OF rec] have "distinct r1" by simp
    with rec Some \<open>activeTab s = Some a\<close> show ?thesis
      by (simp add: diagram_effect_def comp_def)
  qed
qed

lemma App_twice_fields:
  "tabs App_twice = [twice_tab]" "activeTabId App_twice = ''default-tab''"
  "pendingDiagramsRef App_twice = {}"
  unfolding App_twice_def effect_then_def effect_loaded
  by (simp_all add: App_loaded_eq step_defs hypertext_run_simps key_hypertext initial_App_def
      hypertext_tab_simps twice_tab_def)

lemma twice_tab_simps:
  "tab_id twice_tab = ''default-tab''"
  "content twice_tab = Some ''[DIAGRAM: linked pages] Hypertext. [DIAGRAM: linked pages]''"
  "generatedDiagrams twice_tab = Map.empty"
  by (simp_all add: twice_tab_def hypertext_tab_simps)
     (simp add: hypertext_tab_def initial_effect_def createNewTab_def truthy_def)

lemma diagram_effect_twice:
  "snd (diagram_effect App_twice) = [(''default-tab'', ''linked pages'')]"
proof -
  have "activeTab App_twice = Some twice_tab"
    by (rule activeTab_single) (simp_all add: App_twice_fields twice_tab_simps)
  then show ?thesis
    by (simp add: diagram_effect_def twice_tab_simps prompts_twice truthy_def App_twice_fields)
qed

text \<open>
  Claim C5 at two sessions. The call for the prompt \<open>linked pages\<close> is outstanding for the
  default tab. The second tab is active, its content carries the same marker and it has no
  diagram for the prompt, yet the diagram effect issues no call for it: the pending set is
  one set for the whole component. Within one session, a content that carries the marker
  twice leads to one call.
\<close>

theorem pending_diagram_suppresses_other_session:
  "diagram_effect App_linked =
     (App_linked\<lparr>pendingDiagramsRef := {''linked pages''}\<rparr>,
      [(''default-tab'', ''linked pages'')]) \<and>
   map tab_id (tabs App_second) = [''default-tab'', ''tab-b''] \<and>
   activeTabId App_second = ''tab-b'' \<and>
   map content (tabs App_second) =
     [Some ''Hypertext is text with links. [DIAGRAM: linked pages]'',
      Some ''A hyperlink joins pages. [DIAGRAM: linked pages]''] \<and>
   map (\<lambda>t. generatedDiagrams t ''linked pages'') (tabs App_second) = [None, None] \<and>
   diagram_effect App_second = (App_second, []) \<and>
   snd (diagram_effect App_twice) = [(''default-tab'', ''linked pages'')]"
proof -
  have a: "activeTab App_second = Some hyperlink_done"
    by (rule activeTab_second [of _ linked_tab])
       (simp_all add: App_second_fields linked_tab_simps hyperlink_done_simps)
  have "diagram_effect App_second = (App_second, [])"
    by (simp add: diagram_effect_def a hyperlink_done_simps prompts_hyperlink truthy_def
        App_second_fields)
  then show ?thesis
    by (simp add: diagram_effect_linked App_second_fields linked_tab_simps hyperlink_done_simps
        diagram_effect_twice)
qed

section \<open>Isolation of sessions\<close>

lemma others_updateActiveTab:
  "(\<And>t. tab_id (f t) = tab_id t) \<Longrightarrow> others i (updateActiveTab i f ts) = others i ts"
  by (simp add: others_def updateActiveTab_def)

lemma contents_updateActiveTab:
  "(\<And>t. tab_id (f t) = tab_id t) \<Longrightarrow>
   contents j (updateActiveTab i f ts) =
     (if i = j then map (\<lambda>t. content (f t)) (filter (\<lambda>t. tab_id t = j) ts)
      else contents j ts)"
  by (induction ts) (auto simp: contents_def updateActiveTab_def)

lemma finally_block_others:
  "others (run_tabId r) (tabs (finally_block now r s)) = others (run_tabId r) (tabs s)"
  by (simp add: finally_block_def Let_def others_updateActiveTab)

lemma catch_block_others:
  "others (run_tabId r) (tabs (catch_block msg r s)) = others (run_tabId r) (tabs s)"
  by (simp add: catch_block_def others_updateActiveTab)

text \<open>
  Every step of a run, of either kind and cancelled or not, leaves the tabs of every other
  identifier as they are.
\<close>

lemma run_step_others:
  "others (run_tabId r) (tabs (snd (run_step now sig r s))) = others (run_tabId r) (tabs s)"
proof (cases "run_body r")
  case (FetchData call)
  then show ?thesis
    by (cases call; cases sig)
       (auto simp: run_step_def fetchData_step_def finally_block_others Let_def
          catch_block_others others_updateActiveTab split: StreamEvent.splits)
next
  case (FetchTranslation p l)
  then show ?thesis
    by (cases sig)
       (auto simp: run_step_def fetchTranslation_step_def Let_def others_updateActiveTab
          split: StreamEvent.splits)
qed

text \<open>A cancelled run of \<open>fetchData\<close> changes nothing any more.\<close>

lemma cancelled_fetch_is_silent:
  "isCancelled r \<Longrightarrow> run_body r = FetchData call \<Longrightarrow> snd (run_step now sig r s) = s"
  by (cases call; cases sig)
     (auto simp: run_step_def fetchData_step_def finally_block_def catch_block_def
        split: StreamEvent.splits)

lemma others_filter:
  "i \<noteq> j \<Longrightarrow> others i ts = others i ts' \<Longrightarrow>
   filter (\<lambda>t. tab_id t = j) ts = filter (\<lambda>t. tab_id t = j) ts'"
proof (induction ts arbitrary: ts')
  case Nil
  then show ?case by (simp add: others_def)
next
  case (Cons t ts)
  then obtain t' us where ts': "ts' = t' # us"
    by (cases ts') (auto simp: others_def)
  with Cons.prems have hd: "(if tab_id t = i then None else Some t) =
      (if tab_id t' = i then None else Some t')" and tl: "others i ts = others i us"
    by (simp_all add: others_def)
  from Cons.IH [OF Cons.prems(1) tl] hd Cons.prems(1) ts' show ?case
    by (auto split: if_splits)
qed

lemma run_step_contents_frame:
  assumes "run_tabId r \<noteq> j"
  shows "contents j (tabs (snd (run_step now sig r s))) = contents j (tabs s)"
  unfolding contents_def
  using others_filter [OF assms run_step_others [of r now sig s]] by simp

lemma run_step_local: "fst (run_step now sig r s) = fst (run_step now sig r s')"
proof (cases "run_body r")
  case (FetchData call)
  then show ?thesis
    by (cases call; cases sig)
       (auto simp: run_step_def fetchData_step_def Let_def split: StreamEvent.splits)
next
  case (FetchTranslation p l)
  then show ?thesis
    by (cases sig)
       (auto simp: run_step_def fetchTranslation_step_def Let_def split: StreamEvent.splits)
qed

lemma run_step_tabId: "run_tabId (fst (run_step now sig r s)) = run_tabId r"
proof (cases "run_body r")
  case (FetchData call)
  then show ?thesis
    by (cases call; cases sig)
       (auto simp: run_step_def fetchData_step_def Let_def split: StreamEvent.splits)
next
  case (FetchTranslation p l)
  then show ?thesis
    by (cases sig)
       (auto simp: run_step_def fetchTranslation_step_def Let_def split: StreamEvent.splits)
qed

lemma map_const_cong: "map f xs = map f ys \<Longrightarrow> map (\<lambda>t. c) xs = map (\<lambda>t. c) ys"
  by (drule arg_cong [where f = length]) (simp add: map_replicate_const)

lemma contents_set_content:
  assumes "contents j ts = contents j ts'" and "\<And>t. tab_id (f t) = tab_id t"
    and "\<And>t. tab_id (g t) = tab_id t" and "\<And>t. content (f t) = Some c"
    and "\<And>t. content (g t) = Some c"
  shows "contents j (updateActiveTab i f ts) = contents j (updateActiveTab i g ts')"
  using assms(1) map_const_cong [of content "filter (\<lambda>t. tab_id t = j) ts"
      "filter (\<lambda>t. tab_id t = j) ts'" "Some c"]
  by (simp add: contents_updateActiveTab assms(2-5)) (simp add: contents_def)

lemma contents_keep_content:
  assumes "contents j ts = contents j ts'" and "\<And>t. tab_id (f t) = tab_id t"
    and "\<And>t. tab_id (g t) = tab_id t" and "\<And>t. content (f t) = content t"
    and "\<And>t. content (g t) = content t"
  shows "contents j (updateActiveTab i f ts) = contents j (updateActiveTab i g ts')"
  using assms(1)
  by (simp add: contents_updateActiveTab assms(2-5)) (simp add: contents_def)

lemma finally_block_contents:
  "contents j (tabs s) = contents j (tabs s') \<Longrightarrow>
   contents j (tabs (finally_block now r s)) = contents j (tabs (finally_block now r s'))"
  by (auto simp: finally_block_def Let_def intro!: contents_keep_content)

lemma catch_block_contents:
  "contents j (tabs s) = contents j (tabs s') \<Longrightarrow>
   contents j (tabs (catch_block msg r s)) = contents j (tabs (catch_block msg r s'))"
  by (auto simp: catch_block_def intro!: contents_keep_content)

lemma on_chunk_contents:
  "contents j (tabs s) = contents j (tabs s') \<Longrightarrow>
   contents j (tabs (snd (on_chunk call text srcs r s))) =
   contents j (tabs (snd (on_chunk call text srcs r s')))"
  by (cases call) (auto simp: Let_def intro!: contents_set_content)

text \<open>
  What a step of a run does to the contents of the tabs of one identifier depends on
  those contents only, not on the rest of the state.
\<close>

lemma run_step_contents_cong:
  assumes "contents j (tabs s) = contents j (tabs s')"
  shows "contents j (tabs (snd (run_step now sig r s))) =
         contents j (tabs (snd (run_step now sig r s')))"
proof (cases "run_body r")
  case (FetchData call)
  show ?thesis
  proof (cases "call = PerformAiSearch (case call of PerformAiSearch q l \<Rightarrow> q | _ \<Rightarrow> [])
                        (case call of PerformAiSearch q l \<Rightarrow> l | _ \<Rightarrow> [])")
    case True
    with FetchData assms show ?thesis
      by (cases call; cases sig)
         (auto simp: run_step_def fetchData_step_def
            intro!: finally_block_contents catch_block_contents contents_set_content)
  next
    case False
    with FetchData assms show ?thesis
      by (cases call; cases sig)
         (auto simp: run_step_def fetchData_step_def simp del: on_chunk.simps
            intro!: finally_block_contents catch_block_contents on_chunk_contents
            split: StreamEvent.splits)
  qed
next
  case (FetchTranslation p l)
  with assms show ?thesis
    by (cases sig)
       (auto simp: run_step_def fetchTranslation_step_def Let_def
          intro: contents_set_content contents_keep_content split: StreamEvent.splits)
qed

lemma cleanup_tabId: "run_tabId (cleanup r) = run_tabId r"
  by (simp add: cleanup_def)

lemma schedule_isolation_general:
  assumes "run_tabId rA \<noteq> j" and "run_tabId rA' \<noteq> j"
    and "contents j (tabs s) = contents j (tabs s')"
  shows "fst (snd (foldl schedule_step (rA, rB, s) acts)) =
           fst (snd (foldl schedule_step (rA', rB, s') (filter (of_party RunB) acts))) \<and>
         contents j (tabs (snd (snd (foldl schedule_step (rA, rB, s) acts)))) =
           contents j (tabs (snd (snd (foldl schedule_step (rA', rB, s')
                                          (filter (of_party RunB) acts)))))"
  using assms
proof (induction acts arbitrary: rA rA' rB s s')
  case Nil
  then show ?case by simp
next
  case (Cons act acts)
  show ?case
  proof (cases act)
    case (Deliver q now sig)
    show ?thesis
    proof (cases q)
      case RunA
      obtain rA1 s1 where st: "run_step now sig rA s = (rA1, s1)"
        by (cases "run_step now sig rA s")
      have "run_tabId rA1 \<noteq> j"
        using run_step_tabId [of now sig rA s] st Cons.prems(1) by simp
      moreover have "contents j (tabs s1) = contents j (tabs s')"
        using run_step_contents_frame [OF Cons.prems(1), of now sig s] st Cons.prems(3) by simp
      ultimately show ?thesis
        using Cons.IH [of rA1 rA' s1 s' rB] Cons.prems(2) Deliver RunA st
        by (simp add: of_party_def)
    next
      case RunB
      obtain rB1 s1 where st: "run_step now sig rB s = (rB1, s1)"
        by (cases "run_step now sig rB s")
      obtain rB1' s1' where st': "run_step now sig rB s' = (rB1', s1')"
        by (cases "run_step now sig rB s'")
      have "rB1' = rB1"
        using run_step_local [of now sig rB s s'] st st' by simp
      moreover have "contents j (tabs s1) = contents j (tabs s1')"
        using run_step_contents_cong [OF Cons.prems(3), of now sig rB] st st' by simp
      ultimately show ?thesis
        using Cons.IH [of rA rA' s1 s1' rB1] Cons.prems(1,2) Deliver RunB st st'
        by (simp add: of_party_def)
    qed
  next
    case (Cancel q)
    show ?thesis
    proof (cases q)
      case RunA
      then show ?thesis
        using Cons.IH [of "cleanup rA" rA' s s' rB] Cons.prems Cancel
        by (simp add: of_party_def cleanup_tabId)
    next
      case RunB
      then show ?thesis
        using Cons.IH [of rA rA' s s' "cleanup rB"] Cons.prems Cancel
        by (simp add: of_party_def)
    qed
  qed
qed

text \<open>
  Isolation. Two runs for tabs of different identifiers are fed signals and cancelled in
  any order. The contents of the tabs of the second run, and the second run itself, end
  as they do when every signal to the first run and its cancellation are left out.
\<close>

lemma schedule_isolation:
  assumes "run_tabId rA \<noteq> run_tabId rB"
  shows "fst (snd (foldl schedule_step (rA, rB, s) acts)) =
           fst (snd (foldl schedule_step (rA, rB, s) (filter (of_party RunB) acts))) \<and>
         contents (run_tabId rB) (tabs (snd (snd (foldl schedule_step (rA, rB, s) acts)))) =
           contents (run_tabId rB)
             (tabs (snd (snd (foldl schedule_step (rA, rB, s) (filter (of_party RunB) acts)))))"
  using assms by (intro schedule_isolation_general) simp_all

section \<open>A cancelled page translation\<close>

lemma translation_run_starts:
  "main_effect 20000 App_spanish = (App_spanish, Some translation_run)"
  by (simp add: effect_spanish translation_run_def)

lemma translation_run_partial:
  "run_step 20100 (Yields (Chunk ''u'' None)) translation_run App_spanish =
     (translation_run\<lparr>accumulatedContent := ''u''\<rparr>,
      App_hypertext\<lparr>tabs := [spanish_tab\<lparr>content := Some ''u''\<rparr>]\<rparr>)"
  by (simp add: run_step_def fetchTranslation_step_def translation_run_def start_run_def
      App_spanish_eq updateActiveTab_def spanish_tab_simps Let_def)

lemma unity_tab_simps:
  "tab_id unity_tab = ''tab-b''" "currentTopic unity_tab = ''Unity''"
  "language unity_tab = ''English''"
  "documentName unity_tab = None" "documentContext unity_tab = None"
  "fileData unity_tab = None" "\<not> isWebSearchMode unity_tab"
  "\<not> isEbookMode unity_tab" "webSectionIndex unity_tab = 0"
  "isLoading unity_tab" "content unity_tab = Some []"
  by (simp_all add: unity_tab_def handleTopicChange_def createNewTab_def)

lemma trim_Unity: "trim ''Unity'' = ''Unity''"
  by (simp add: trim_def is_space_def)

lemma Unity_is_no_link: "\<not> isYouTubeUrl ''Unity''" "\<not> isUrl ''Unity''"
  by (simp_all add: regex_defs)

lemma App_requested_fields:
  "tabs App_requested = [spanish_tab\<lparr>content := Some ''u''\<rparr>, unity_tab]"
  "activeTabId App_requested = ''tab-b''"
  "cache App_requested = cache App_hypertext"
  by (simp_all add: App_requested_def App_partial_def translation_run_partial
      handleTopicChange_App_def handleNewTab_def on_activeTab_def activeTab_def
      updateActiveTab_def spanish_tab_simps unity_tab_def createNewTab_def)

lemma activeTab_requested: "activeTab App_requested = Some unity_tab"
  by (rule activeTab_second [of _ "spanish_tab\<lparr>content := Some ''u''\<rparr>"])
     (simp_all add: App_requested_fields spanish_tab_simps unity_tab_simps)

lemma key_unity: "cacheKey unity_tab = ''wiki:unity:0:English''"
  by (simp add: unity_tab_simps key_defs)

lemma unity_run_starts: "main_effect 21000 App_requested = (App_unity, Some unity_run)"
proof -
  have c: "select_call unity_tab = StreamWikiDefinition ''Unity'' ''English''"
    by (simp add: select_call_def unity_tab_simps image_file_def truthy_def trim_Unity
        Unity_is_no_link)
  have "snd (main_effect 21000 App_requested) = Some unity_run"
    by (simp add: main_effect_def activeTab_requested key_unity c unity_tab_simps
        App_requested_fields App_hypertext_fields unity_run_def)
  then show ?thesis
    by (simp add: App_unity_def prod_eq_iff)
qed

lemma App_unity_tabs: "tabs App_unity = [spanish_tab\<lparr>content := Some ''u''\<rparr>, unity_tab]"
  by (simp add: App_unity_def main_effect_def activeTab_requested key_unity unity_tab_simps
      App_requested_fields App_hypertext_fields)

text \<open>
  Claim C2 at a cancelled page translation. The translation for the default tab has
  delivered one chunk; opening the second tab cancels it, and the definition stream of the
  second tab is started. The next chunk of the cancelled translation breaks its loop, and
  the update after the loop, which is not guarded by the cancellation flag, clears the
  loading flag of the default tab: an update of the cancelled run is applied to its own
  session. The second tab is untouched.
\<close>

theorem cancelled_translation_still_updates:
  "main_effect 20000 App_spanish = (App_spanish, Some translation_run) \<and>
   fst (run_step 20100 (Yields (Chunk ''u'' None)) translation_run App_spanish) =
     translation_run\<lparr>accumulatedContent := ''u''\<rparr> \<and>
   isCancelled translation_cancelled \<and> \<not> finished translation_cancelled \<and>
   main_effect 21000 App_requested = (App_unity, Some unity_run) \<and>
   map tab_id (tabs App_unity) = [''default-tab'', ''tab-b''] \<and>
   map isLoading (tabs App_unity) = [True, True] \<and>
   map isLoading
     (tabs (snd (snd (schedule_step (translation_cancelled, unity_run, App_unity)
                        (Deliver RunA 21100 (Yields (Chunk ''no'' None))))))) =
     [False, True]"
proof -
  have "map isLoading
     (tabs (snd (snd (schedule_step (translation_cancelled, unity_run, App_unity)
                        (Deliver RunA 21100 (Yields (Chunk ''no'' None))))))) =
     [False, True]"
    by (simp add: translation_cancelled_def cleanup_def App_unity_tabs
        spanish_tab_simps unity_tab_simps translation_run_def start_run_def run_step_def
        fetchTranslation_step_def updateActiveTab_def)
  moreover have "isCancelled translation_cancelled" "\<not> finished translation_cancelled"
    by (simp_all add: translation_cancelled_def cleanup_def translation_run_def start_run_def)
  moreover have "map tab_id (tabs App_unity) = [''default-tab'', ''tab-b'']"
    "map isLoading (tabs App_unity) = [True, True]"
    by (simp_all add: App_unity_tabs spanish_tab_simps unity_tab_simps)
  moreover note translation_run_starts unity_run_starts
  moreover have "fst (run_step 20100 (Yields (Chunk ''u'' None)) translation_run App_spanish) =
     translation_run\<lparr>accumulatedContent := ''u''\<rparr>"
    by (simp add: translation_run_partial)
  ultimately show ?thesis by (intro conjI)
qed

end
